theory Spec2Isabelle
  imports Main "HOL-Library.Sublist"
begin

section \<open>The Realm model generator of apollo-codegen\<close>

text \<open>
  A shallow embedding of \<^verbatim>\<open>src/realm/language.ts\<close> (the class \<^verbatim>\<open>SwiftGenerator\<close>) and
  of the Realm code generation driver (the class \<^verbatim>\<open>RealmModelGenerator\<close> and
  \<^verbatim>\<open>generateSource\<close>). A generator object is a record of its mutable members; every
  method takes the generator and returns it updated; a closure is a function from
  generator to generator. Strings are lists of characters; a character stands for one
  code unit of the JavaScript string, restricted to the range 0..255.
\<close>

subsection \<open>Characters and string helpers of the JavaScript runtime\<close>

abbreviation (input) newline :: char where
  "newline \<equiv> CHR 0x0A"

abbreviation (input) dquote :: char where
  "dquote \<equiv> CHR 0x22"

abbreviation (input) backtick :: char where
  "backtick \<equiv> CHR 0x60"

text \<open>\<^verbatim>\<open>String.prototype.startsWith\<close>.\<close>

definition startsWith :: "string \<Rightarrow> string \<Rightarrow> bool" where
  "startsWith s pre = (take (length pre) s = pre)"

text \<open>
  \<^verbatim>\<open>String.prototype.split\<close> with a one-character separator: the pieces between the
  separators, in order; a string with no separator is one piece, the empty string too.
\<close>

fun split :: "char \<Rightarrow> string \<Rightarrow> string list" where
  "split sep [] = [[]]"
| "split sep (c # cs) =
     (if c = sep then [] # split sep cs
      else (c # hd (split sep cs)) # tl (split sep cs))"

text \<open>
  \<^verbatim>\<open>String.prototype.trim\<close>: white space and line terminators are removed at both
  ends. In the range 0..255 these are TAB, LF, VT, FF, CR, SP and NBSP.
\<close>

definition isWhiteSpace :: "char \<Rightarrow> bool" where
  "isWhiteSpace c =
     (c = CHR 0x09 \<or> c = CHR 0x0A \<or> c = CHR 0x0B \<or> c = CHR 0x0C \<or> c = CHR 0x0D \<or>
      c = CHR 0x20 \<or> c = CHR 0xA0)"

definition trim :: "string \<Rightarrow> string" where
  "trim s = rev (dropWhile isWhiteSpace (rev (dropWhile isWhiteSpace s)))"

subsection \<open>The schema types of the graphql library\<close>

text \<open>
  A type reference as the generator sees it: the class of the type object (what
  \<^verbatim>\<open>instanceof\<close> tests), its name, and for the two wrappers the wrapped type
  \<^verbatim>\<open>ofType\<close>. An object type is referred to by name; its fields are looked up in the
  schema (\<open>getFields\<close> below), so that types may refer to each other.
\<close>

datatype GraphQLType =
    GraphQLObjectType string
  | GraphQLScalarType string
  | GraphQLEnumType string
  | GraphQLInterfaceType string
  | GraphQLUnionType string
  | GraphQLInputObjectType string
  | GraphQLList GraphQLType
  | GraphQLNonNull GraphQLType

text \<open>\<^verbatim>\<open>isOutputType\<close> of the graphql library.\<close>

fun isOutputType :: "GraphQLType \<Rightarrow> bool" where
  "isOutputType (GraphQLScalarType n) = True"
| "isOutputType (GraphQLObjectType n) = True"
| "isOutputType (GraphQLInterfaceType n) = True"
| "isOutputType (GraphQLUnionType n) = True"
| "isOutputType (GraphQLEnumType n) = True"
| "isOutputType (GraphQLInputObjectType n) = False"
| "isOutputType (GraphQLList t) = isOutputType t"
| "isOutputType (GraphQLNonNull t) = isOutputType t"

text \<open>The names of the five built-in scalars (\<^verbatim>\<open>GraphQLBoolean.name\<close> and so on).\<close>

definition GraphQLBoolean_name :: string where "GraphQLBoolean_name = ''Boolean''"
definition GraphQLInt_name :: string where "GraphQLInt_name = ''Int''"
definition GraphQLFloat_name :: string where "GraphQLFloat_name = ''Float''"
definition GraphQLString_name :: string where "GraphQLString_name = ''String''"
definition GraphQLID_name :: string where "GraphQLID_name = ''ID''"

record GraphQLField =
  fieldName :: string
  fieldType :: GraphQLType
  fieldDescription :: "string option"

text \<open>
  The schema: \<open>getTypeMap\<close> is \<^verbatim>\<open>Object.values(schema.getTypeMap())\<close>, the named types in
  the order of the map; \<open>getFields n\<close> is \<^verbatim>\<open>Object.values(type.getFields())\<close> of the object
  type named \<open>n\<close>, the fields in their declared order.
\<close>

record GraphQLSchema =
  getTypeMap :: "GraphQLType list"
  getFields :: "string \<Rightarrow> GraphQLField list"

record Options =
  namespace :: "string option"
  passthroughCustomScalars :: "bool option"
  customScalarsPrefix :: "string option"

record CompilerContext =
  schema :: GraphQLSchema
  options :: Options

text \<open>
  Two functions the generator imports are parameters of the model: \<^verbatim>\<open>camelCase\<close> of the
  package change-case, and \<^verbatim>\<open>rootTypeNameFromGraphQLType\<close> of the class \<^verbatim>\<open>Helpers\<close>.
\<close>

record Externals =
  camelCase :: "string \<Rightarrow> string"
  rootTypeNameFromGraphQLType :: "GraphQLType \<Rightarrow> string"

subsection \<open>The printer: utilities/CodeGenerator and utilities/printing\<close>

text \<open>
  Modelled from the spec: the base class \<^verbatim>\<open>CodeGenerator\<close> (utilities/CodeGenerator) and
  the functions \<^verbatim>\<open>join\<close> and \<^verbatim>\<open>wrap\<close> (utilities/printing) are not among the source
  files. The spec describes them as an append-only output buffer with a pending-newline
  state and an indentation level that follows the open scopes, a stack of scope frames,
  and a block printer that prints the opening brace, indents the body and prints the
  closing brace on a line of its own. The members and methods below are the ones
  \<^verbatim>\<open>SwiftGenerator\<close> calls.
\<close>

record CodeGenerator =
  "output" :: string
  indentLevel :: nat
  startOfIndentLevel :: bool
  scopeStack :: "string list"

text \<open>Modelled from the spec: the width of one indentation level of \<^verbatim>\<open>CodeGenerator\<close>, two spaces.\<close>

definition indentWidth :: nat where
  "indentWidth = 2"

text \<open>Modelled from the spec: a new \<^verbatim>\<open>CodeGenerator\<close>, with an empty output buffer and no open scope.\<close>

definition newGenerator :: CodeGenerator where
  "newGenerator = \<lparr>output = [], indentLevel = 0, startOfIndentLevel = False, scopeStack = []\<rparr>"

text \<open>
  Modelled from the spec: \<^verbatim>\<open>pushScope\<close> and \<^verbatim>\<open>popScope\<close> of \<^verbatim>\<open>CodeGenerator\<close>, the stack
  of scope frames.
\<close>

definition pushScope :: "string \<Rightarrow> CodeGenerator \<Rightarrow> CodeGenerator" where
  "pushScope typeName' g = g\<lparr>scopeStack := scopeStack g @ [typeName']\<rparr>"

definition popScope :: "CodeGenerator \<Rightarrow> CodeGenerator" where
  "popScope g = g\<lparr>scopeStack := butlast (scopeStack g)\<rparr>"

text \<open>Modelled from the spec: \<^verbatim>\<open>print\<close> of \<^verbatim>\<open>CodeGenerator\<close> appends a string, if there is one.\<close>

definition print :: "string \<Rightarrow> CodeGenerator \<Rightarrow> CodeGenerator" where
  "print maybeString g = (if maybeString \<noteq> [] then g\<lparr>output := output g @ maybeString\<rparr> else g)"

text \<open>
  Modelled from the spec: \<^verbatim>\<open>printNewline\<close> and \<^verbatim>\<open>printNewlineIfNeeded\<close> of
  \<^verbatim>\<open>CodeGenerator\<close>. No line break is printed on an empty output, and none is needed at
  the start of an indentation level.
\<close>

definition printNewline :: "CodeGenerator \<Rightarrow> CodeGenerator" where
  "printNewline g =
     (if output g \<noteq> [] then (print [newline] g)\<lparr>startOfIndentLevel := False\<rparr> else g)"

definition printNewlineIfNeeded :: "CodeGenerator \<Rightarrow> CodeGenerator" where
  "printNewlineIfNeeded g = (if \<not> startOfIndentLevel g then printNewline g else g)"

text \<open>
  Modelled from the spec: \<^verbatim>\<open>printIndent\<close> and \<^verbatim>\<open>printOnNewline\<close> of \<^verbatim>\<open>CodeGenerator\<close>:
  a string on a line of its own, indented to the current level.
\<close>

definition printIndent :: "CodeGenerator \<Rightarrow> CodeGenerator" where
  "printIndent g = g\<lparr>output := output g @ replicate (indentLevel g * indentWidth) CHR '' ''\<rparr>"

definition printOnNewline :: "string \<Rightarrow> CodeGenerator \<Rightarrow> CodeGenerator" where
  "printOnNewline maybeString g =
     (if maybeString \<noteq> [] then print maybeString (printIndent (printNewline g)) else g)"

text \<open>
  Modelled from the spec: \<^verbatim>\<open>withIndent\<close> and \<^verbatim>\<open>withinBlock\<close> of \<^verbatim>\<open>CodeGenerator\<close>:
  the closure runs one level deeper, between the opening brace and the closing brace.
  Every closure of the generator leaves the level as it finds it (lemma \<open>appends_fold\<close>
  and its neighbours below), so the level is at least one where it is decremented.
\<close>

definition withIndent :: "(CodeGenerator \<Rightarrow> CodeGenerator) \<Rightarrow> CodeGenerator \<Rightarrow> CodeGenerator" where
  "withIndent closure g =
     (let g1 = closure (g\<lparr>indentLevel := indentLevel g + 1, startOfIndentLevel := True\<rparr>)
      in g1\<lparr>indentLevel := indentLevel g1 - 1\<rparr>)"

definition withinBlock :: "(CodeGenerator \<Rightarrow> CodeGenerator) \<Rightarrow> CodeGenerator \<Rightarrow> CodeGenerator" where
  "withinBlock closure g = printOnNewline ''}'' (withIndent closure (print '' {'' g))"

text \<open>
  Modelled from the spec: \<^verbatim>\<open>join\<close> and \<^verbatim>\<open>wrap\<close> of utilities/printing.
  \<^verbatim>\<open>join(list, separator)\<close> drops the absent and the empty entries and joins the rest;
  \<^verbatim>\<open>wrap(start, maybeString, end)\<close> is empty when the string is.
\<close>

fun joinStrings :: "string \<Rightarrow> string list \<Rightarrow> string" where
  "joinStrings separator [] = []"
| "joinStrings separator [s] = s"
| "joinStrings separator (s # t # ss) = s @ separator @ joinStrings separator (t # ss)"

definition join :: "string option list \<Rightarrow> string \<Rightarrow> string" where
  "join list separator =
     joinStrings separator (filter (\<lambda>s. s \<noteq> []) (map the (filter (\<lambda>m. m \<noteq> None) list)))"

definition wrap :: "string \<Rightarrow> string \<Rightarrow> string \<Rightarrow> string" where
  "wrap start maybeString end' = (if maybeString \<noteq> [] then start @ maybeString @ end' else [])"

subsection \<open>language.ts: identifiers\<close>

definition reservedKeywords :: "string list" where
  "reservedKeywords = [''associatedtype'', ''class'', ''deinit'', ''enum'', ''extension'',
    ''fileprivate'', ''func'', ''import'', ''init'', ''inout'', ''internal'', ''let'', ''open'',
    ''operator'', ''private'', ''protocol'', ''public'', ''static'', ''struct'', ''subscript'',
    ''typealias'', ''var'', ''break'', ''case'', ''continue'', ''default'', ''defer'', ''do'',
    ''else'', ''fallthrough'', ''for'', ''guard'', ''if'', ''in'', ''repeat'', ''return'',
    ''switch'', ''where'', ''while'', ''as'', ''Any'', ''catch'', ''false'', ''is'', ''nil'',
    ''rethrows'', ''super'', ''self'', ''Self'', ''throw'', ''throws'', ''true'', ''try'',
    ''associativity'', ''convenience'', ''dynamic'', ''didSet'', ''final'', ''get'', ''infix'',
    ''indirect'', ''lazy'', ''left'', ''mutating'', ''none'', ''nonmutating'', ''optional'',
    ''override'', ''postfix'', ''precedence'', ''prefix'', ''Protocol'', ''required'', ''right'',
    ''set'', ''Type'', ''unowned'', ''weak'', ''willSet'']"

definition escapeIdentifierIfNeeded :: "string \<Rightarrow> string" where
  "escapeIdentifierIfNeeded identifier =
     (if identifier \<in> set reservedKeywords then [backtick] @ identifier @ [backtick]
      else identifier)"

subsection \<open>language.ts: SwiftGenerator\<close>

record Class =
  className :: string
  modifiers :: "string list"
  superClass :: "string option"
  adoptedProtocols :: "string list"

record Property =
  propertyName :: string
  typeName :: string
  propertyType :: GraphQLType
  description :: "string option"

text \<open>
  \<^verbatim>\<open>comment\<close>: an absent comment and the empty string are both falsy and print nothing.
\<close>

definition comment :: "string option \<Rightarrow> CodeGenerator \<Rightarrow> CodeGenerator" where
  "comment c g =
     (case c of
        None \<Rightarrow> g
      | Some text \<Rightarrow>
          if text \<noteq> [] then fold (\<lambda>line. printOnNewline (''/// '' @ trim line)) (split newline text) g
          else g)"

text \<open>\<^verbatim>\<open>namespaceDeclaration\<close>: an absent namespace and the empty string are both falsy.\<close>

definition namespaceDeclaration ::
  "string option \<Rightarrow> (CodeGenerator \<Rightarrow> CodeGenerator) \<Rightarrow> CodeGenerator \<Rightarrow> CodeGenerator" where
  "namespaceDeclaration ns closure g =
     (if ns \<noteq> None \<and> ns \<noteq> Some [] then
        popScope
          (withinBlock closure
            (pushScope (the ns)
              (printOnNewline (''public enum '' @ the ns)
                (printOnNewline (''/// '' @ the ns @ '' namespace'')
                  (printNewlineIfNeeded g)))))
      else closure g)"

definition classDeclaration ::
  "Class \<Rightarrow> (CodeGenerator \<Rightarrow> CodeGenerator) \<Rightarrow> CodeGenerator \<Rightarrow> CodeGenerator" where
  "classDeclaration c closure g =
     popScope
       (withinBlock closure
         (pushScope (className c)
           (print (wrap '': '' (join (superClass c # map Some (adoptedProtocols c)) '', '') [])
             (printOnNewline
               (wrap [] (join (map Some (modifiers c)) '' '') '' '' @ ''class '' @ className c)
               (printNewlineIfNeeded g)))))"

text \<open>
  \<^verbatim>\<open>propertyDeclaration\<close>, with its two optional parameters explicit. The recursive calls
  build a new property without a description. The \<^verbatim>\<open>switch\<close> on the scalar's name is
  the chain of comparisons in the order of its cases.
\<close>

function propertyDeclaration ::
  "Property \<Rightarrow> bool \<Rightarrow> bool \<Rightarrow> CodeGenerator \<Rightarrow> CodeGenerator" where
  "propertyDeclaration property isOptional isList g =
     (case propertyType property of
        GraphQLNonNull ofType \<Rightarrow>
          propertyDeclaration
            \<lparr>propertyName = propertyName property, typeName = typeName property,
             propertyType = ofType, description = None\<rparr>
            False isList g
      | GraphQLList ofType \<Rightarrow>
          propertyDeclaration
            \<lparr>propertyName = propertyName property, typeName = typeName property,
             propertyType = ofType, description = None\<rparr>
            isOptional True g
      | type \<Rightarrow>
          (let g1 = comment (description property) g in
           if isList then
             printOnNewline (''let '' @ propertyName property @ '' = List<'' @ typeName property @ ''>()'') g1
           else
             (case type of
                GraphQLObjectType n \<Rightarrow>
                  printOnNewline (''dynamic var '' @ propertyName property @ '': '' @ typeName property @ ''?'') g1
              | GraphQLScalarType name \<Rightarrow>
                  if name = GraphQLBoolean_name then
                    (if isOptional then
                       printOnNewline (''let '' @ propertyName property @ '' = RealmOptional<Bool>()'') g1
                     else
                       printOnNewline (''dynamic var '' @ propertyName property @ '' = false'') g1)
                  else if name = GraphQLInt_name then
                    (if isOptional then
                       printOnNewline (''let '' @ propertyName property @ '' = RealmOptional<Int>()'') g1
                     else
                       printOnNewline (''dynamic var '' @ propertyName property @ '' = 0'') g1)
                  else if name = GraphQLFloat_name then
                    (if isOptional then
                       printOnNewline (''let '' @ propertyName property @ '' = RealmOptional<Float>()'') g1
                     else
                       printOnNewline (''dynamic var '' @ propertyName property @ '': Float = 0.0'') g1)
                  else if name = GraphQLString_name then
                    (if isOptional then
                       printOnNewline (''dynamic var '' @ propertyName property @ '': String? = nil'') g1
                     else
                       printOnNewline (''dynamic var '' @ propertyName property @ '' = '' @ [dquote, dquote]) g1)
                  else if name = GraphQLID_name then
                    (let g2 =
                       (if isOptional then
                          printOnNewline (''dynamic var '' @ propertyName property @ '': String? = nil'') g1
                        else
                          printOnNewline (''dynamic var '' @ propertyName property @ '' = '' @ [dquote, dquote]) g1)
                     in withinBlock
                          (printOnNewline (''return '' @ [dquote] @ propertyName property @ [dquote]))
                          (printOnNewline ''override public static func primaryKey() -> String?'' g2))
                  else
                    printOnNewline (''UNCAUGHT SCALAR '' @ name) g1
              | GraphQLEnumType n \<Rightarrow>
                  printOnNewline (''dynamic var '' @ propertyName property @ '': String? = nil'') g1
              | _ \<Rightarrow> g1)))"
  by pat_completeness auto
termination
  by (relation "measure (\<lambda>(p, isOptional, isList, g). size (propertyType p))") auto

declare propertyDeclaration.simps [simp del]

text \<open>\<^verbatim>\<open>propertyDeclarations\<close>: every property with the default parameters.\<close>

definition propertyDeclarations :: "Property list \<Rightarrow> CodeGenerator \<Rightarrow> CodeGenerator" where
  "propertyDeclarations properties g = fold (\<lambda>property. propertyDeclaration property True False) properties g"

subsection \<open>The Realm generator: RealmModelGenerator and generateSource\<close>

definition fileHeader :: "CodeGenerator \<Rightarrow> CodeGenerator" where
  "fileHeader g =
     printOnNewline ''import RealmSwift''
       (printOnNewline ''import Realm''
         (printOnNewline ''import Apollo''
           (printNewline
             (printOnNewline ''//  This file was automatically generated and should not be edited.'' g))))"

definition generateFieldDeclaration ::
  "Externals \<Rightarrow> GraphQLField \<Rightarrow> string \<Rightarrow> CodeGenerator \<Rightarrow> CodeGenerator" where
  "generateFieldDeclaration ext field classPrefix g =
     propertyDeclaration
       \<lparr>propertyName = camelCase ext (fieldName field),
        typeName = rootTypeNameFromGraphQLType ext (fieldType field),
        propertyType = fieldType field,
        description = None\<rparr>
       True False
       (if fieldDescription field \<noteq> None then comment (fieldDescription field) g else g)"

definition generateOutputObjectForType ::
  "Externals \<Rightarrow> GraphQLSchema \<Rightarrow> string \<Rightarrow> CodeGenerator \<Rightarrow> CodeGenerator" where
  "generateOutputObjectForType ext sch name g =
     (let classPrefix = [];
          className' = classPrefix @ name
      in classDeclaration
           \<lparr>className = className', modifiers = [''public'', ''final''], superClass = None,
            adoptedProtocols = [''Object'']\<rparr>
           (fold (\<lambda>field. generateFieldDeclaration ext field classPrefix) (getFields sch name))
           g)"

definition realmTypeDeclarationType ::
  "Externals \<Rightarrow> GraphQLSchema \<Rightarrow> GraphQLType \<Rightarrow> CodeGenerator \<Rightarrow> CodeGenerator" where
  "realmTypeDeclarationType ext sch type g =
     (case type of
        GraphQLObjectType typeName' \<Rightarrow>
          if isOutputType type then
            (let prefix = ''__'' in
             if \<not> startsWith typeName' prefix then generateOutputObjectForType ext sch typeName' g
             else g)
          else g
      | _ \<Rightarrow> g)"

definition generateSource :: "Externals \<Rightarrow> CompilerContext \<Rightarrow> string" where
  "generateSource ext context =
     output
       (namespaceDeclaration (namespace (options context))
         (fold (realmTypeDeclarationType ext (schema context)) (getTypeMap (schema context)))
         (fileHeader newGenerator))"

text \<open>\<^verbatim>\<open>parameterForFieldName\<close>: the one place where the generator escapes a field name.\<close>

definition parameterForFieldName :: "(GraphQLType \<Rightarrow> string) \<Rightarrow> string \<Rightarrow> GraphQLType \<Rightarrow> string" where
  "parameterForFieldName typeNameFromGraphQLType fieldName' type =
     (let typeName' = typeNameFromGraphQLType type;
          isOptional = (case type of GraphQLNonNull t \<Rightarrow> False | _ \<Rightarrow> True)
      in join [Some (escapeIdentifierIfNeeded fieldName' @ '': '' @ typeName'),
               (if isOptional then Some '' = nil'' else None)] [])"

subsection \<open>Notions used to state the properties\<close>

text \<open>
  The wrapper unwrapping of \<^verbatim>\<open>propertyDeclaration\<close> on its own: the innermost type and
  the two flags with which the declaration is finally printed. The equations are the
  two recursive calls of \<^verbatim>\<open>propertyDeclaration\<close>; lemma \<open>propertyDeclaration_classify\<close>
  below relates the two.
\<close>

fun classify :: "GraphQLType \<Rightarrow> bool \<Rightarrow> bool \<Rightarrow> GraphQLType \<times> bool \<times> bool" where
  "classify (GraphQLNonNull ofType) isOptional isList = classify ofType False isList"
| "classify (GraphQLList ofType) isOptional isList = classify ofType isOptional True"
| "classify type isOptional isList = (type, isOptional, isList)"

text \<open>A type that is a wrapper; a type with a list layer among its wrappers.\<close>

fun isWrapper :: "GraphQLType \<Rightarrow> bool" where
  "isWrapper (GraphQLList t) = True"
| "isWrapper (GraphQLNonNull t) = True"
| "isWrapper t = False"

fun wrappedInList :: "GraphQLType \<Rightarrow> bool" where
  "wrappedInList (GraphQLList t) = True"
| "wrappedInList (GraphQLNonNull t) = wrappedInList t"
| "wrappedInList t = False"

text \<open>
  The description with which the innermost call prints: the recursive calls drop it.
\<close>

definition leafDescription :: "Property \<Rightarrow> string option" where
  "leafDescription p = (if isWrapper (propertyType p) then None else description p)"

definition builtInScalarNames :: "string list" where
  "builtInScalarNames = [''Boolean'', ''Int'', ''Float'', ''String'', ''ID'']"

text \<open>
  \<open>appends g g'\<close>: the generator \<open>g'\<close> has the output of \<open>g\<close> followed by more text, at
  the same indentation level and with the same open scopes.
\<close>

definition appends :: "CodeGenerator \<Rightarrow> CodeGenerator \<Rightarrow> bool" where
  "appends g g' =
     (prefix (output g) (output g') \<and> indentLevel g' = indentLevel g \<and>
      scopeStack g' = scopeStack g)"

text \<open>The indentation printed at the level of a generator.\<close>

definition indentation :: "CodeGenerator \<Rightarrow> string" where
  "indentation g = replicate (indentLevel g * indentWidth) CHR '' ''"

text \<open>The line break \<^verbatim>\<open>printOnNewline\<close> prints first: none on an empty output.\<close>

definition lineBreak :: "CodeGenerator \<Rightarrow> string" where
  "lineBreak g = (if output g = [] then [] else [newline])"

text \<open>
  \<open>contains s searchString\<close>: the search string occurs in \<open>s\<close>
  (\<^verbatim>\<open>String.prototype.includes\<close>).
\<close>

fun contains :: "string \<Rightarrow> string \<Rightarrow> bool" where
  "contains [] searchString = (searchString = [])"
| "contains (c # cs) searchString =
     (startsWith (c # cs) searchString \<or> contains cs searchString)"

text \<open>
  An instance of the two imported functions for the examples. On the field names of the
  examples, single lower-case words, \<^verbatim>\<open>camelCase\<close> returns its argument; the type name
  is a fixed one.
\<close>

definition sampleExternals :: Externals where
  "sampleExternals =
     \<lparr>camelCase = (\<lambda>name. name), rootTypeNameFromGraphQLType = (\<lambda>type. ''String'')\<rparr>"

text \<open>The text \<^verbatim>\<open>fileHeader\<close> prints on an empty output.\<close>

definition fileHeaderText :: string where
  "fileHeaderText =
     ''//  This file was automatically generated and should not be edited.'' @
     [newline, newline] @ ''import Apollo'' @ [newline] @ ''import Realm'' @ [newline] @
     ''import RealmSwift''"

text \<open>
  The comment printer in the words of the spec, to compare \<^verbatim>\<open>comment\<close> with: the text is
  split on line breaks and each non-empty trimmed line is printed after the marker;
  nothing is printed for an absent text.
\<close>

definition comment_spec :: "string option \<Rightarrow> CodeGenerator \<Rightarrow> CodeGenerator" where
  "comment_spec c g =
     (case c of
        None \<Rightarrow> g
      | Some text \<Rightarrow>
          fold (\<lambda>line. printOnNewline (''/// '' @ line))
            (filter (\<lambda>line. line \<noteq> []) (map trim (split newline text))) g)"

text \<open>The text a generator \<open>g'\<close> has after the output of an earlier generator \<open>g\<close>.\<close>

definition emitted :: "CodeGenerator \<Rightarrow> CodeGenerator \<Rightarrow> string" where
  "emitted g g' = drop (length (output g)) (output g')"

text \<open>A schema with one object type, with one field of type \<^verbatim>\<open>[ID]\<close>; no options set.\<close>

definition listOfIDSchema :: GraphQLSchema where
  "listOfIDSchema =
     \<lparr>getTypeMap = [GraphQLScalarType ''ID'', GraphQLObjectType ''User''],
      getFields = (\<lambda>n. if n = ''User'' then
        [\<lparr>fieldName = ''ids'', fieldType = GraphQLList (GraphQLScalarType ''ID''),
          fieldDescription = None\<rparr>] else [])\<rparr>"

definition noOptions :: Options where
  "noOptions = \<lparr>namespace = None, passthroughCustomScalars = None, customScalarsPrefix = None\<rparr>"

text \<open>The first line of the override that \<^verbatim>\<open>propertyDeclaration\<close> prints for an ID.\<close>

definition primaryKeyOverride :: string where
  "primaryKeyOverride = ''override public static func primaryKey() -> String?''"

text \<open>
  The parts of a class declaration. \<open>classBreak\<close> is what separates the class from the text
  before it: nothing on an empty output, a line break at the start of an indentation
  level, and a blank line otherwise. \<open>classOpening n g\<close> is the generator inside the block
  of the class \<open>n\<close>, after its first line. \<open>classClosing g body\<close> is the generator after the
  closing brace, where \<open>body\<close> is the generator after the fields.
\<close>

definition classBreak :: "CodeGenerator \<Rightarrow> string" where
  "classBreak g =
     (if output g = [] then [] else if startOfIndentLevel g then [newline]
      else [newline, newline])"

definition classOpening :: "string \<Rightarrow> CodeGenerator \<Rightarrow> CodeGenerator" where
  "classOpening n g =
     g\<lparr>output := output g @ classBreak g @ indentation g @
          ''public final class '' @ n @ '': Object {'',
       indentLevel := indentLevel g + 1, startOfIndentLevel := True,
       scopeStack := scopeStack g @ [n]\<rparr>"

definition classClosing :: "CodeGenerator \<Rightarrow> CodeGenerator \<Rightarrow> CodeGenerator" where
  "classClosing g body =
     body\<lparr>output := output body @ [newline] @ indentation g @ ''}'',
          indentLevel := indentLevel g, startOfIndentLevel := False,
          scopeStack := scopeStack g\<rparr>"

text \<open>The types for which a class is declared: object types outside the introspection names.\<close>

definition emitsClass :: "GraphQLType \<Rightarrow> bool" where
  "emitsClass type =
     (case type of
        GraphQLObjectType n \<Rightarrow> isOutputType type \<and> \<not> startsWith n ''__''
      | _ \<Rightarrow> False)"

text \<open>
  Two schemas for the examples: a user type among a scalar, an enum, an input and an
  introspection type; an event type with a field of a custom scalar.
\<close>

definition userSchema :: GraphQLSchema where
  "userSchema =
     \<lparr>getTypeMap =
        [GraphQLScalarType ''ID'', GraphQLScalarType ''String'', GraphQLObjectType ''User'',
         GraphQLEnumType ''Role'', GraphQLInputObjectType ''UserInput'',
         GraphQLObjectType ''__Type''],
      getFields = (\<lambda>n.
        if n = ''User'' then
          [\<lparr>fieldName = ''id'', fieldType = GraphQLNonNull (GraphQLScalarType ''ID''),
            fieldDescription = None\<rparr>,
           \<lparr>fieldName = ''name'', fieldType = GraphQLScalarType ''String'',
            fieldDescription = None\<rparr>]
        else if n = ''__Type'' then
          [\<lparr>fieldName = ''kind'', fieldType = GraphQLScalarType ''String'',
            fieldDescription = None\<rparr>]
        else [])\<rparr>"

definition eventSchema :: GraphQLSchema where
  "eventSchema =
     \<lparr>getTypeMap = [GraphQLScalarType ''DateTime'', GraphQLObjectType ''Event''],
      getFields = (\<lambda>n.
        if n = ''Event'' then
          [\<lparr>fieldName = ''start'', fieldType = GraphQLNonNull (GraphQLScalarType ''DateTime''),
            fieldDescription = None\<rparr>,
           \<lparr>fieldName = ''title'', fieldType = GraphQLScalarType ''String'',
            fieldDescription = None\<rparr>]
        else [])\<rparr>"

text \<open>
  The line \<^verbatim>\<open>propertyDeclaration\<close> prints in its innermost call, after the comment: the
  branches of that call in their order, for the innermost type and the two flags. It is
  empty where the call prints nothing. For an ID that is not a list the override follows
  this line.
\<close>

definition propertyLine :: "string \<Rightarrow> string \<Rightarrow> GraphQLType \<Rightarrow> bool \<Rightarrow> bool \<Rightarrow> string" where
  "propertyLine name tn type isOptional isList =
     (if isList then ''let '' @ name @ '' = List<'' @ tn @ ''>()''
      else
        (case type of
           GraphQLObjectType n \<Rightarrow> ''dynamic var '' @ name @ '': '' @ tn @ ''?''
         | GraphQLScalarType n \<Rightarrow>
             if n = ''Boolean'' then
               (if isOptional then ''let '' @ name @ '' = RealmOptional<Bool>()''
                else ''dynamic var '' @ name @ '' = false'')
             else if n = ''Int'' then
               (if isOptional then ''let '' @ name @ '' = RealmOptional<Int>()''
                else ''dynamic var '' @ name @ '' = 0'')
             else if n = ''Float'' then
               (if isOptional then ''let '' @ name @ '' = RealmOptional<Float>()''
                else ''dynamic var '' @ name @ '': Float = 0.0'')
             else if n = ''String'' \<or> n = ''ID'' then
               (if isOptional then ''dynamic var '' @ name @ '': String? = nil''
                else ''dynamic var '' @ name @ '' = '' @ [dquote, dquote])
             else ''UNCAUGHT SCALAR '' @ n
         | GraphQLEnumType n \<Rightarrow> ''dynamic var '' @ name @ '': String? = nil''
         | _ \<Rightarrow> []))"

text \<open>The innermost types for which the innermost call has a branch.\<close>

fun namedOutputKind :: "GraphQLType \<Rightarrow> bool" where
  "namedOutputKind (GraphQLObjectType n) = True"
| "namedOutputKind (GraphQLScalarType n) = True"
| "namedOutputKind (GraphQLEnumType n) = True"
| "namedOutputKind t = False"

text \<open>
  Two more schemas for the examples: an object type with a field of an interface type and
  a field of a union type; an event type with a field that is a list of a custom scalar.
\<close>

definition droidSchema :: GraphQLSchema where
  "droidSchema =
     \<lparr>getTypeMap =
        [GraphQLInterfaceType ''Character'', GraphQLUnionType ''Pet'', GraphQLObjectType ''Droid''],
      getFields = (\<lambda>n.
        if n = ''Droid'' then
          [\<lparr>fieldName = ''friend'', fieldType = GraphQLInterfaceType ''Character'',
            fieldDescription = None\<rparr>,
           \<lparr>fieldName = ''pet'', fieldType = GraphQLNonNull (GraphQLUnionType ''Pet''),
            fieldDescription = None\<rparr>]
        else [])\<rparr>"

definition eventListSchema :: GraphQLSchema where
  "eventListSchema =
     \<lparr>getTypeMap = [GraphQLScalarType ''DateTime'', GraphQLObjectType ''Event''],
      getFields = (\<lambda>n.
        if n = ''Event'' then
          [\<lparr>fieldName = ''starts'', fieldType = GraphQLList (GraphQLScalarType ''DateTime''),
            fieldDescription = None\<rparr>]
        else [])\<rparr>"

section \<open>Properties\<close>

subsection \<open>The printer\<close>

lemma output_print: "output (print s g) = output g @ s"
  by (simp add: print_def)

lemma output_printOnNewline:
  "s \<noteq> [] \<Longrightarrow> output (printOnNewline s g) = output g @ lineBreak g @ indentation g @ s"
  by (simp add: printOnNewline_def print_def printIndent_def printNewline_def
      lineBreak_def indentation_def)

lemma output_printOnNewline_nonempty: "s \<noteq> [] \<Longrightarrow> output (printOnNewline s g) \<noteq> []"
  by (simp add: output_printOnNewline)

lemma appends_refl [simp]: "appends g g"
  by (simp add: appends_def)

lemma appends_trans: "appends g g' \<Longrightarrow> appends g' g'' \<Longrightarrow> appends g g''"
  by (auto simp: appends_def)

lemma appends_print: "appends g (print s g)"
  by (simp add: appends_def print_def)

lemma appends_printNewline: "appends g (printNewline g)"
  by (simp add: appends_def printNewline_def print_def)

lemma appends_printNewlineIfNeeded: "appends g (printNewlineIfNeeded g)"
  by (simp add: printNewlineIfNeeded_def appends_printNewline)

lemma appends_printOnNewline: "appends g (printOnNewline s g)"
  by (simp add: appends_def printOnNewline_def printNewline_def print_def printIndent_def)

lemma appends_withinBlock:
  assumes "\<And>h. appends h (closure h)"
  shows "appends g (withinBlock closure g)"
proof -
  let ?g0 = "print '' {'' g"
  let ?g1 = "?g0\<lparr>indentLevel := indentLevel ?g0 + 1, startOfIndentLevel := True\<rparr>"
  let ?g2 = "closure ?g1"
  let ?g3 = "?g2\<lparr>indentLevel := indentLevel ?g2 - 1\<rparr>"
  have "appends ?g1 ?g2" by (rule assms)
  then have "appends g ?g3"
    by (auto simp: appends_def print_def dest: append_prefixD)
  moreover have "withinBlock closure g = printOnNewline ''}'' ?g3"
    by (simp add: withinBlock_def withIndent_def Let_def)
  ultimately show ?thesis
    using appends_trans [OF _ appends_printOnNewline] by simp
qed

lemma appends_fold:
  assumes "\<And>x h. appends h (f x h)"
  shows "appends g (fold f xs g)"
proof (induction xs arbitrary: g)
  case Nil
  show ?case by simp
next
  case (Cons x xs)
  show ?case
    using appends_trans [OF assms [of g x] Cons.IH [of "f x g"]] by simp
qed

lemma comment_None [simp]: "comment None g = g"
  by (simp add: comment_def)

lemma appends_comment: "appends g (comment c g)"
  by (cases c) (simp_all add: comment_def appends_fold appends_printOnNewline)

subsection \<open>The cases of propertyDeclaration\<close>

lemma propertyDeclaration_NonNull:
  "propertyType p = GraphQLNonNull t \<Longrightarrow>
   propertyDeclaration p isOptional isList g =
   propertyDeclaration \<lparr>propertyName = propertyName p, typeName = typeName p,
     propertyType = t, description = None\<rparr> False isList g"
  by (subst propertyDeclaration.simps) simp

lemma propertyDeclaration_List:
  "propertyType p = GraphQLList t \<Longrightarrow>
   propertyDeclaration p isOptional isList g =
   propertyDeclaration \<lparr>propertyName = propertyName p, typeName = typeName p,
     propertyType = t, description = None\<rparr> isOptional True g"
  by (subst propertyDeclaration.simps) simp

lemma propertyDeclaration_isList_leaf:
  "\<not> isWrapper (propertyType p) \<Longrightarrow>
   propertyDeclaration p isOptional True g =
   printOnNewline (''let '' @ propertyName p @ '' = List<'' @ typeName p @ ''>()'')
     (comment (description p) g)"
  by (subst propertyDeclaration.simps) (cases "propertyType p"; simp)

lemma propertyDeclaration_Object:
  "propertyType p = GraphQLObjectType n \<Longrightarrow>
   propertyDeclaration p isOptional False g =
   printOnNewline (''dynamic var '' @ propertyName p @ '': '' @ typeName p @ ''?'')
     (comment (description p) g)"
  by (subst propertyDeclaration.simps) simp

lemma propertyDeclaration_Enum:
  "propertyType p = GraphQLEnumType n \<Longrightarrow>
   propertyDeclaration p isOptional False g =
   printOnNewline (''dynamic var '' @ propertyName p @ '': String? = nil'')
     (comment (description p) g)"
  by (subst propertyDeclaration.simps) simp

lemma propertyDeclaration_other:
  "propertyType p = GraphQLInterfaceType n \<or> propertyType p = GraphQLUnionType n \<or>
   propertyType p = GraphQLInputObjectType n \<Longrightarrow>
   propertyDeclaration p isOptional False g = comment (description p) g"
  by (subst propertyDeclaration.simps) auto

lemmas scalar_names = GraphQLBoolean_name_def GraphQLInt_name_def GraphQLFloat_name_def
  GraphQLString_name_def GraphQLID_name_def

lemma propertyDeclaration_Boolean:
  "propertyType p = GraphQLScalarType ''Boolean'' \<Longrightarrow>
   propertyDeclaration p isOptional False g =
   printOnNewline
     (if isOptional then ''let '' @ propertyName p @ '' = RealmOptional<Bool>()''
      else ''dynamic var '' @ propertyName p @ '' = false'')
     (comment (description p) g)"
  by (subst propertyDeclaration.simps) (simp add: scalar_names)

lemma propertyDeclaration_Int:
  "propertyType p = GraphQLScalarType ''Int'' \<Longrightarrow>
   propertyDeclaration p isOptional False g =
   printOnNewline
     (if isOptional then ''let '' @ propertyName p @ '' = RealmOptional<Int>()''
      else ''dynamic var '' @ propertyName p @ '' = 0'')
     (comment (description p) g)"
  by (subst propertyDeclaration.simps) (simp add: scalar_names)

lemma propertyDeclaration_Float:
  "propertyType p = GraphQLScalarType ''Float'' \<Longrightarrow>
   propertyDeclaration p isOptional False g =
   printOnNewline
     (if isOptional then ''let '' @ propertyName p @ '' = RealmOptional<Float>()''
      else ''dynamic var '' @ propertyName p @ '': Float = 0.0'')
     (comment (description p) g)"
  by (subst propertyDeclaration.simps) (simp add: scalar_names)

lemma propertyDeclaration_String:
  "propertyType p = GraphQLScalarType ''String'' \<Longrightarrow>
   propertyDeclaration p isOptional False g =
   printOnNewline
     (if isOptional then ''dynamic var '' @ propertyName p @ '': String? = nil''
      else ''dynamic var '' @ propertyName p @ '' = '' @ [dquote, dquote])
     (comment (description p) g)"
  by (subst propertyDeclaration.simps) (simp add: scalar_names)

lemma propertyDeclaration_ID:
  "propertyType p = GraphQLScalarType ''ID'' \<Longrightarrow>
   propertyDeclaration p isOptional False g =
   withinBlock (printOnNewline (''return '' @ [dquote] @ propertyName p @ [dquote]))
     (printOnNewline ''override public static func primaryKey() -> String?''
       (printOnNewline
         (if isOptional then ''dynamic var '' @ propertyName p @ '': String? = nil''
          else ''dynamic var '' @ propertyName p @ '' = '' @ [dquote, dquote])
         (comment (description p) g)))"
  by (subst propertyDeclaration.simps) (simp add: scalar_names)

lemma propertyDeclaration_uncaught:
  "propertyType p = GraphQLScalarType n \<Longrightarrow> n \<notin> set builtInScalarNames \<Longrightarrow>
   propertyDeclaration p isOptional False g =
   printOnNewline (''UNCAUGHT SCALAR '' @ n) (comment (description p) g)"
  by (subst propertyDeclaration.simps) (simp add: scalar_names builtInScalarNames_def)

text \<open>
  The unwrapping and the printing apart: a call prints what the call on the innermost
  type prints, with the flags \<open>classify\<close> computes and the description the unwrapping
  has left.
\<close>

lemma Property_eta:
  "propertyType p = t \<Longrightarrow>
   \<lparr>propertyName = propertyName p, typeName = typeName p, propertyType = t,
    description = description p\<rparr> = p"
  by (cases p) auto

lemma propertyDeclaration_classify_case:
  "propertyType p = t \<Longrightarrow>
   propertyDeclaration p isOptional isList g =
   (case classify t isOptional isList of
      (t', isOptional', isList') \<Rightarrow>
        propertyDeclaration \<lparr>propertyName = propertyName p, typeName = typeName p,
          propertyType = t', description = leafDescription p\<rparr> isOptional' isList' g)"
proof (induction t arbitrary: p isOptional isList)
  case (GraphQLList t)
  show ?case
    using GraphQLList.IH [of "\<lparr>propertyName = propertyName p, typeName = typeName p,
      propertyType = t, description = None\<rparr>" isOptional True] GraphQLList.prems
    by (simp add: propertyDeclaration_List leafDescription_def)
next
  case (GraphQLNonNull t)
  show ?case
    using GraphQLNonNull.IH [of "\<lparr>propertyName = propertyName p, typeName = typeName p,
      propertyType = t, description = None\<rparr>" False isList] GraphQLNonNull.prems
    by (simp add: propertyDeclaration_NonNull leafDescription_def)
qed (simp_all add: leafDescription_def Property_eta)

lemma propertyDeclaration_classify:
  "classify (propertyType p) isOptional isList = (t', isOptional', isList') \<Longrightarrow>
   propertyDeclaration p isOptional isList g =
   propertyDeclaration \<lparr>propertyName = propertyName p, typeName = typeName p,
     propertyType = t', description = leafDescription p\<rparr> isOptional' isList' g"
  using propertyDeclaration_classify_case [of p "propertyType p" isOptional isList g] by simp

lemma classify_not_wrapper: "\<not> isWrapper (fst (classify t isOptional isList))"
  by (induction t isOptional isList rule: classify.induct) simp_all

lemma classify_isList_True: "snd (snd (classify t isOptional True))"
  by (induction t arbitrary: isOptional) simp_all

lemma classify_wrappedInList: "wrappedInList t \<Longrightarrow> snd (snd (classify t isOptional isList))"
  by (induction t arbitrary: isOptional isList) (simp_all add: classify_isList_True)

lemma wrappedInList_isWrapper: "wrappedInList t \<Longrightarrow> isWrapper t"
  by (cases t) simp_all

lemma propertyDeclaration_wrappedInList:
  assumes "wrappedInList (propertyType p)"
  shows "propertyDeclaration p isOptional isList g =
    printOnNewline (''let '' @ propertyName p @ '' = List<'' @ typeName p @ ''>()'') g"
proof -
  obtain t' o' l' where c: "classify (propertyType p) isOptional isList = (t', o', l')"
    by (cases "classify (propertyType p) isOptional isList") auto
  have l': "l'"
    using classify_wrappedInList [OF assms, of isOptional isList] c by simp
  have t': "\<not> isWrapper t'"
    using classify_not_wrapper [of "propertyType p" isOptional isList] c by simp
  have d: "leafDescription p = None"
    using wrappedInList_isWrapper [OF assms] by (simp add: leafDescription_def)
  show ?thesis
    using propertyDeclaration_classify [OF c, of g] l' t' d
    by (simp add: propertyDeclaration_isList_leaf)
qed

subsection \<open>Fields with a list layer\<close>

text \<open>
  Claim C2. For every property whose type has a list layer among its wrappers, at any
  position, \<^verbatim>\<open>propertyDeclaration\<close> prints the one line
  \<^verbatim>\<open>let <name> = List<TypeName>()\<close> on a new line and nothing else, whatever the innermost
  type is, whatever the two flags are at the call, and whatever description the property
  carries.
\<close>

theorem list_field_declaration:
  assumes "wrappedInList (propertyType p)"
  shows "propertyDeclaration p isOptional isList g =
      printOnNewline (''let '' @ propertyName p @ '' = List<'' @ typeName p @ ''>()'') g \<and>
    output (propertyDeclaration p isOptional isList g) =
      output g @ lineBreak g @ indentation g @
      ''let '' @ propertyName p @ '' = List<'' @ typeName p @ ''>()''"
  using propertyDeclaration_wrappedInList [OF assms] by (simp add: output_printOnNewline)

theorem list_field_declaration_witness:
  "wrappedInList (GraphQLNonNull (GraphQLList (GraphQLNonNull (GraphQLScalarType ''ID'')))) \<and>
   output (propertyDeclaration
     \<lparr>propertyName = ''ids'', typeName = ''String'',
      propertyType = GraphQLNonNull (GraphQLList (GraphQLNonNull (GraphQLScalarType ''ID''))),
      description = Some ''the ids''\<rparr> True False newGenerator) = ''let ids = List<String>()''"
  using list_field_declaration [of "\<lparr>propertyName = ''ids'', typeName = ''String'',
      propertyType = GraphQLNonNull (GraphQLList (GraphQLNonNull (GraphQLScalarType ''ID''))),
      description = Some ''the ids''\<rparr>" True False newGenerator]
  by (simp add: output_printOnNewline lineBreak_def indentation_def newGenerator_def)

subsection \<open>Escaping of identifiers\<close>

lemma reservedKeywords_hd: "k \<in> set reservedKeywords \<Longrightarrow> hd k \<noteq> backtick"
  by (auto simp: reservedKeywords_def)

lemma escaped_not_reserved: "[backtick] @ s @ [backtick] \<notin> set reservedKeywords"
  using reservedKeywords_hd [of "[backtick] @ s @ [backtick]"] by auto

text \<open>
  Claim C10. \<^verbatim>\<open>escapeIdentifierIfNeeded\<close> is idempotent: escaping an escaped identifier
  changes nothing, since an identifier between backticks is not a reserved keyword.
\<close>

theorem escapeIdentifierIfNeeded_idempotent:
  "escapeIdentifierIfNeeded (escapeIdentifierIfNeeded s) = escapeIdentifierIfNeeded s \<and>
   [backtick] @ s @ [backtick] \<notin> set reservedKeywords"
  using escaped_not_reserved [of s] by (simp add: escapeIdentifierIfNeeded_def)

lemma printOnNewline_neq:
  "a \<noteq> [] \<Longrightarrow> b \<noteq> [] \<Longrightarrow> a \<noteq> b \<Longrightarrow> printOnNewline a g \<noteq> printOnNewline b g"
proof
  assume ne: "a \<noteq> []" "b \<noteq> []" "a \<noteq> b" and eq: "printOnNewline a g = printOnNewline b g"
  have "output (printOnNewline a g) = output (printOnNewline b g)"
    using eq by simp
  then show False
    using ne by (simp add: output_printOnNewline)
qed

lemma generateFieldDeclaration_property:
  "generateFieldDeclaration ext f pre g =
   propertyDeclaration
     \<lparr>propertyName = camelCase ext (fieldName f),
      typeName = rootTypeNameFromGraphQLType ext (fieldType f),
      propertyType = fieldType f, description = None\<rparr>
     True False (comment (fieldDescription f) g)"
  by (cases "fieldDescription f") (simp_all add: generateFieldDeclaration_def)

subsection \<open>Boolean fields\<close>

text \<open>
  Claim C5. For a property, and so for a field, of type \<^verbatim>\<open>Boolean!\<close> the declaration printed
  is \<^verbatim>\<open>dynamic var <name> = false\<close>, and not the boxed form; for the type \<^verbatim>\<open>Boolean\<close>
  without a wrapper it is the boxed form \<^verbatim>\<open>let <name> = RealmOptional<Bool>()\<close>, after the
  comment of the description.
\<close>

theorem boolean_field_declaration:
  "(propertyType p = GraphQLNonNull (GraphQLScalarType ''Boolean'') \<longrightarrow>
      propertyDeclaration p True False g =
        printOnNewline (''dynamic var '' @ propertyName p @ '' = false'') g \<and>
      propertyDeclaration p True False g \<noteq>
        printOnNewline (''let '' @ propertyName p @ '' = RealmOptional<Bool>()'') g) \<and>
   (propertyType p = GraphQLScalarType ''Boolean'' \<longrightarrow>
      propertyDeclaration p True False g =
        printOnNewline (''let '' @ propertyName p @ '' = RealmOptional<Bool>()'')
          (comment (description p) g)) \<and>
   (fieldType f = GraphQLNonNull (GraphQLScalarType ''Boolean'') \<longrightarrow>
      generateFieldDeclaration ext f pre g =
        printOnNewline (''dynamic var '' @ camelCase ext (fieldName f) @ '' = false'')
          (comment (fieldDescription f) g)) \<and>
   (fieldType f = GraphQLScalarType ''Boolean'' \<longrightarrow>
      generateFieldDeclaration ext f pre g =
        printOnNewline (''let '' @ camelCase ext (fieldName f) @ '' = RealmOptional<Bool>()'')
          (comment (fieldDescription f) g))"
proof (intro conjI impI)
  assume t: "propertyType p = GraphQLNonNull (GraphQLScalarType ''Boolean'')"
  show nn: "propertyDeclaration p True False g =
      printOnNewline (''dynamic var '' @ propertyName p @ '' = false'') g"
    by (simp add: propertyDeclaration_NonNull [OF t] propertyDeclaration_Boolean)
  show "propertyDeclaration p True False g \<noteq>
      printOnNewline (''let '' @ propertyName p @ '' = RealmOptional<Bool>()'') g"
    unfolding nn by (rule printOnNewline_neq) simp_all
next
  assume "propertyType p = GraphQLScalarType ''Boolean''"
  then show "propertyDeclaration p True False g =
      printOnNewline (''let '' @ propertyName p @ '' = RealmOptional<Bool>()'')
        (comment (description p) g)"
    by (simp add: propertyDeclaration_Boolean)
next
  assume "fieldType f = GraphQLNonNull (GraphQLScalarType ''Boolean'')"
  then show "generateFieldDeclaration ext f pre g =
      printOnNewline (''dynamic var '' @ camelCase ext (fieldName f) @ '' = false'')
        (comment (fieldDescription f) g)"
    by (simp add: generateFieldDeclaration_property propertyDeclaration_NonNull
        propertyDeclaration_Boolean)
next
  assume "fieldType f = GraphQLScalarType ''Boolean''"
  then show "generateFieldDeclaration ext f pre g =
      printOnNewline (''let '' @ camelCase ext (fieldName f) @ '' = RealmOptional<Bool>()'')
        (comment (fieldDescription f) g)"
    by (simp add: generateFieldDeclaration_property propertyDeclaration_Boolean)
qed

theorem boolean_field_declaration_witness:
  "output (generateFieldDeclaration sampleExternals
      \<lparr>fieldName = ''done'', fieldType = GraphQLNonNull (GraphQLScalarType ''Boolean''),
       fieldDescription = None\<rparr> [] newGenerator) = ''dynamic var done = false'' \<and>
   output (generateFieldDeclaration sampleExternals
      \<lparr>fieldName = ''done'', fieldType = GraphQLScalarType ''Boolean'',
       fieldDescription = None\<rparr> [] newGenerator) = ''let done = RealmOptional<Bool>()'' \<and>
   output (propertyDeclaration
      \<lparr>propertyName = ''done'', typeName = ''Bool'',
       propertyType = GraphQLNonNull (GraphQLScalarType ''Boolean''), description = None\<rparr>
      True False newGenerator) = ''dynamic var done = false'' \<and>
   output (propertyDeclaration
      \<lparr>propertyName = ''done'', typeName = ''Bool'',
       propertyType = GraphQLScalarType ''Boolean'', description = None\<rparr>
      True False newGenerator) = ''let done = RealmOptional<Bool>()''"
  using
    boolean_field_declaration [of
      "\<lparr>propertyName = ''done'', typeName = ''Bool'',
        propertyType = GraphQLNonNull (GraphQLScalarType ''Boolean''), description = None\<rparr>"
      newGenerator
      "\<lparr>fieldName = ''done'', fieldType = GraphQLNonNull (GraphQLScalarType ''Boolean''),
        fieldDescription = None\<rparr>" sampleExternals "[]"]
    boolean_field_declaration [of
      "\<lparr>propertyName = ''done'', typeName = ''Bool'',
        propertyType = GraphQLScalarType ''Boolean'', description = None\<rparr>"
      newGenerator
      "\<lparr>fieldName = ''done'', fieldType = GraphQLScalarType ''Boolean'',
        fieldDescription = None\<rparr>" sampleExternals "[]"]
  by (simp add: output_printOnNewline lineBreak_def indentation_def newGenerator_def
      sampleExternals_def)

subsection \<open>The order of unwrapping\<close>

text \<open>
  Claim C3, as stated: there is a type \<open>t\<close> for which \<^verbatim>\<open>[t!]!\<close> and \<^verbatim>\<open>[t]!\<close> are classified
  differently, or printed differently. There is none.
\<close>

theorem unwrap_order_counterexample:
  "\<not> (\<exists>t p g.
      classify (GraphQLNonNull (GraphQLList (GraphQLNonNull t))) True False \<noteq>
        classify (GraphQLNonNull (GraphQLList t)) True False \<or>
      propertyDeclaration (p\<lparr>propertyType := GraphQLNonNull (GraphQLList (GraphQLNonNull t))\<rparr>)
          True False g \<noteq>
        propertyDeclaration (p\<lparr>propertyType := GraphQLNonNull (GraphQLList t)\<rparr>) True False g)"
  by (simp add: propertyDeclaration_NonNull propertyDeclaration_List)

text \<open>
  Claim C3, amended. For every type \<open>t\<close> the shapes \<^verbatim>\<open>[t!]!\<close> and \<^verbatim>\<open>[t]!\<close> reach the
  innermost call with the same type and the same flags, not optional and list, from any
  flags at the call, and print the same declaration. The optional flag is kept across a
  list layer: \<^verbatim>\<open>[T!]\<close> is classified not optional and \<^verbatim>\<open>[T]\<close> optional; the declaration
  printed is the same, the list form.
\<close>

theorem unwrap_order_same_classification:
  "classify (GraphQLNonNull (GraphQLList (GraphQLNonNull t))) isOptional isList =
     classify t False True \<and>
   classify (GraphQLNonNull (GraphQLList t)) isOptional isList = classify t False True \<and>
   propertyDeclaration (p\<lparr>propertyType := GraphQLNonNull (GraphQLList (GraphQLNonNull t))\<rparr>)
       isOptional isList g =
     propertyDeclaration (p\<lparr>propertyType := GraphQLNonNull (GraphQLList t)\<rparr>)
       isOptional isList g \<and>
   classify (GraphQLList (GraphQLNonNull (GraphQLScalarType n))) True False =
     (GraphQLScalarType n, False, True) \<and>
   classify (GraphQLList (GraphQLScalarType n)) True False = (GraphQLScalarType n, True, True) \<and>
   propertyDeclaration (p\<lparr>propertyType := GraphQLList (GraphQLNonNull (GraphQLScalarType n))\<rparr>)
       True False g =
     propertyDeclaration (p\<lparr>propertyType := GraphQLList (GraphQLScalarType n)\<rparr>) True False g"
  by (simp add: propertyDeclaration_NonNull propertyDeclaration_List
      propertyDeclaration_isList_leaf)

lemma fileHeader_newGenerator:
  "fileHeader newGenerator =
   \<lparr>output = fileHeaderText, indentLevel = 0, startOfIndentLevel = False, scopeStack = []\<rparr>"
  by (simp add: fileHeader_def newGenerator_def printOnNewline_def printNewline_def
      print_def printIndent_def fileHeaderText_def)

lemma indentLevel_printOnNewline [simp]: "indentLevel (printOnNewline s g) = indentLevel g"
  using appends_printOnNewline [of g s] by (simp add: appends_def)

lemma comment_lines_output:
  "output (fold (\<lambda>line. printOnNewline (''/// '' @ trim line)) ls g) =
   output g @ drop (if output g = [] then 1 else 0)
     (concat (map (\<lambda>line. newline # indentation g @ ''/// '' @ trim line) ls))"
proof (induction ls arbitrary: g)
  case Nil
  show ?case by simp
next
  case (Cons l ls)
  let ?g' = "printOnNewline (''/// '' @ trim l) g"
  have ne: "output ?g' \<noteq> []"
    by (rule output_printOnNewline_nonempty) simp
  have ind: "indentation ?g' = indentation g"
    by (simp add: indentation_def)
  show ?case
    using Cons.IH [of ?g'] ne ind
    by (simp add: output_printOnNewline lineBreak_def)
qed

lemma split_nonempty [simp]: "split sep s \<noteq> []"
  by (cases s) simp_all

subsection \<open>Comments\<close>

text \<open>
  Claim C9, as stated, fails on a text with a blank line: \<^verbatim>\<open>comment\<close> prints the marker
  for the blank line too, where the printer of the spec's words prints two lines only.
\<close>

theorem comment_blank_line_counterexample:
  "output (comment (Some [CHR ''a'', newline, newline, CHR ''b'']) newGenerator) =
     ''/// a'' @ [newline] @ ''/// '' @ [newline] @ ''/// b'' \<and>
   output (comment_spec (Some [CHR ''a'', newline, newline, CHR ''b'']) newGenerator) =
     ''/// a'' @ [newline] @ ''/// b'' \<and>
   comment (Some [CHR ''a'', newline, newline, CHR ''b'']) newGenerator \<noteq>
     comment_spec (Some [CHR ''a'', newline, newline, CHR ''b'']) newGenerator"
  by (simp add: comment_def comment_spec_def newGenerator_def printOnNewline_def
      printNewline_def print_def printIndent_def trim_def isWhiteSpace_def)

text \<open>
  Claim C9, amended. An absent text and the empty text print nothing. Any other text is
  split on line breaks and every piece, the blank ones too, is printed on a line of its
  own as the marker \<^verbatim>\<open>///\<close>, a space and the trimmed piece.
\<close>

theorem comment_prints_every_line:
  "comment None g = g \<and> comment (Some []) g = g \<and>
   (text \<noteq> [] \<longrightarrow>
      comment (Some text) g =
        fold (\<lambda>line. printOnNewline (''/// '' @ trim line)) (split newline text) g \<and>
      output (comment (Some text) g) =
        output g @ drop (if output g = [] then 1 else 0)
          (concat (map (\<lambda>line. newline # indentation g @ ''/// '' @ trim line)
            (split newline text))))"
  using comment_lines_output [of "split newline text" g] by (simp add: comment_def)

theorem comment_prints_every_line_witness:
  "[CHR ''a'', newline, CHR '' '', newline, CHR '' '', CHR ''b''] \<noteq> [] \<and>
   output (comment (Some [CHR ''a'', newline, CHR '' '', newline, CHR '' '', CHR ''b''])
     newGenerator) = ''/// a'' @ [newline] @ ''/// '' @ [newline] @ ''/// b''"
  using comment_prints_every_line
    [of newGenerator "[CHR ''a'', newline, CHR '' '', newline, CHR '' '', CHR ''b'']"]
  by (simp add: newGenerator_def indentation_def trim_def isWhiteSpace_def
      printOnNewline_def printNewline_def print_def printIndent_def)

subsection \<open>The empty type map\<close>

lemma generateSource_empty_no_namespace:
  assumes "getTypeMap (schema context) = []"
    and "namespace (options context) = None \<or> namespace (options context) = Some []"
  shows "generateSource ext context = fileHeaderText"
  using assms by (auto simp: generateSource_def namespaceDeclaration_def fileHeader_newGenerator)

lemma generateSource_empty_namespace:
  assumes "getTypeMap (schema context) = []"
    and "namespace (options context) = Some ns" and "ns \<noteq> []"
  shows "generateSource ext context =
    fileHeaderText @ [newline, newline] @ ''/// '' @ ns @ '' namespace'' @ [newline] @
    ''public enum '' @ ns @ '' {'' @ [newline] @ ''}''"
  using assms
  by (simp add: generateSource_def namespaceDeclaration_def fileHeader_newGenerator
      printNewlineIfNeeded_def printOnNewline_def printNewline_def print_def printIndent_def
      pushScope_def popScope_def withinBlock_def withIndent_def fileHeaderText_def)

text \<open>
  Claim C8, as stated for every options value, fails when a namespace is set: the
  namespace block is printed after the header, with an empty body.
\<close>

theorem empty_type_map_namespace_counterexample:
  "generateSource sampleExternals
     \<lparr>schema = \<lparr>getTypeMap = [], getFields = (\<lambda>n. [])\<rparr>,
      options = \<lparr>namespace = Some ''API'', passthroughCustomScalars = None,
        customScalarsPrefix = None\<rparr>\<rparr> =
   fileHeaderText @ [newline, newline] @ ''/// API namespace'' @ [newline] @
     ''public enum API {'' @ [newline] @ ''}'' \<and>
   generateSource sampleExternals
     \<lparr>schema = \<lparr>getTypeMap = [], getFields = (\<lambda>n. [])\<rparr>,
      options = \<lparr>namespace = Some ''API'', passthroughCustomScalars = None,
        customScalarsPrefix = None\<rparr>\<rparr> \<noteq> fileHeaderText"
  by (simp add: generateSource_empty_namespace)

text \<open>
  Claim C8, amended. With an empty type map \<^verbatim>\<open>generateSource\<close> returns exactly the file
  header when the namespace option is absent or empty, whatever the other options are;
  when a namespace is set it returns the header followed by the empty namespace block.
\<close>

theorem empty_type_map_header:
  assumes "getTypeMap (schema context) = []"
  shows "(namespace (options context) = None \<or> namespace (options context) = Some [] \<longrightarrow>
      generateSource ext context = fileHeaderText) \<and>
    (\<forall>ns. namespace (options context) = Some ns \<and> ns \<noteq> [] \<longrightarrow>
      generateSource ext context =
        fileHeaderText @ [newline, newline] @ ''/// '' @ ns @ '' namespace'' @ [newline] @
        ''public enum '' @ ns @ '' {'' @ [newline] @ ''}'')"
  using generateSource_empty_no_namespace [OF assms] generateSource_empty_namespace [OF assms]
  by blast

theorem empty_type_map_header_witness:
  "generateSource sampleExternals
     \<lparr>schema = \<lparr>getTypeMap = [], getFields = (\<lambda>n. [])\<rparr>,
      options = \<lparr>namespace = None, passthroughCustomScalars = Some True,
        customScalarsPrefix = Some ''X''\<rparr>\<rparr> = fileHeaderText \<and>
   generateSource sampleExternals
     \<lparr>schema = \<lparr>getTypeMap = [], getFields = (\<lambda>n. [])\<rparr>,
      options = \<lparr>namespace = Some ''API'', passthroughCustomScalars = None,
        customScalarsPrefix = None\<rparr>\<rparr> =
   fileHeaderText @ [newline, newline] @ ''/// API namespace'' @ [newline] @
     ''public enum API {'' @ [newline] @ ''}''"
  using
    empty_type_map_header [of
      "\<lparr>schema = \<lparr>getTypeMap = [], getFields = (\<lambda>n. [])\<rparr>,
        options = \<lparr>namespace = None, passthroughCustomScalars = Some True,
          customScalarsPrefix = Some ''X''\<rparr>\<rparr>" sampleExternals]
    empty_type_map_header [of
      "\<lparr>schema = \<lparr>getTypeMap = [], getFields = (\<lambda>n. [])\<rparr>,
        options = \<lparr>namespace = Some ''API'', passthroughCustomScalars = None,
          customScalarsPrefix = None\<rparr>\<rparr>" sampleExternals]
  by simp

subsection \<open>Identity fields\<close>

lemma split_no_sep: "sep \<notin> set a \<Longrightarrow> split sep a = [a]"
  by (induction a) auto

lemma split_append: "sep \<notin> set a \<Longrightarrow> split sep (a @ sep # b) = a # split sep b"
  by (induction a) auto

lemma indentation_appends: "appends g g' \<Longrightarrow> indentation g' = indentation g"
  by (simp add: appends_def indentation_def)

lemma replicate_two: "c # c # replicate n c = replicate n c @ [c, c]"
  by (induction n) auto

lemma indentation_Suc:
  "indentLevel h = Suc (indentLevel g) \<Longrightarrow> indentation h = indentation g @ ''  ''"
  by (simp add: indentation_def indentWidth_def replicate_two)

lemma output_withinBlock_printOnNewline:
  "r \<noteq> [] \<Longrightarrow>
   output (withinBlock (printOnNewline r) h) =
   output h @ '' {'' @ [newline] @ indentation h @ ''  '' @ r @ [newline] @ indentation h @ ''}''"
  by (simp add: withinBlock_def withIndent_def Let_def print_def printOnNewline_def
      printNewline_def printIndent_def indentation_def indentWidth_def replicate_two)

lemma output_propertyDeclaration_ID:
  assumes "propertyType p = GraphQLScalarType ''ID''"
  shows "output (propertyDeclaration p isOptional False g) =
    output (comment (description p) g) @ lineBreak (comment (description p) g) @
    indentation g @
    (if isOptional then ''dynamic var '' @ propertyName p @ '': String? = nil''
     else ''dynamic var '' @ propertyName p @ '' = '' @ [dquote, dquote]) @
    [newline] @ indentation g @ primaryKeyOverride @ '' {'' @
    [newline] @ indentation g @ ''  return '' @ [dquote] @ propertyName p @ [dquote] @
    [newline] @ indentation g @ ''}''"
proof -
  let ?g1 = "comment (description p) g"
  let ?decl = "if isOptional then ''dynamic var '' @ propertyName p @ '': String? = nil''
     else ''dynamic var '' @ propertyName p @ '' = '' @ [dquote, dquote]"
  let ?g2 = "printOnNewline ?decl ?g1"
  let ?g3 = "printOnNewline primaryKeyOverride ?g2"
  have i1: "indentation ?g1 = indentation g"
    by (rule indentation_appends) (rule appends_comment)
  have i2: "indentation ?g2 = indentation g"
    using indentation_appends [OF appends_printOnNewline [of ?g1 ?decl]] i1 by simp
  have i3: "indentation ?g3 = indentation g"
    using indentation_appends [OF appends_printOnNewline [of ?g2 primaryKeyOverride]] i2 by simp
  have o2: "output ?g2 = output ?g1 @ lineBreak ?g1 @ indentation g @ ?decl"
    using i1 by (simp add: output_printOnNewline)
  have ne2: "output ?g2 \<noteq> []"
    by (rule output_printOnNewline_nonempty) simp
  have o3: "output ?g3 = output ?g2 @ [newline] @ indentation g @ primaryKeyOverride"
    using i2 ne2 by (simp add: output_printOnNewline lineBreak_def primaryKeyOverride_def)
  have "propertyDeclaration p isOptional False g =
      withinBlock (printOnNewline (''return '' @ [dquote] @ propertyName p @ [dquote])) ?g3"
    using propertyDeclaration_ID [OF assms, of isOptional g]
    by (simp add: primaryKeyOverride_def)
  then have "output (propertyDeclaration p isOptional False g) =
      output ?g3 @ '' {'' @ [newline] @ indentation g @ ''  '' @
      (''return '' @ [dquote] @ propertyName p @ [dquote]) @ [newline] @ indentation g @ ''}''"
    using i3 by (simp add: output_withinBlock_printOnNewline)
  then show ?thesis
    unfolding o3 o2 by simp
qed

lemma newline_notin_indentation [simp]: "newline \<notin> set (indentation g)"
  by (simp add: indentation_def)

lemma primaryKey_lines:
  assumes "newline \<notin> set name" and "newline \<notin> set decl" and "hd decl = CHR ''d''"
    and br: "br = [] \<or> br = [newline]" and ind: "newline \<notin> set ind"
  shows "count_list
    (split newline (br @ ind @ decl @ [newline] @ ind @ primaryKeyOverride @ '' {'' @
      [newline] @ ind @ ''  return '' @ [dquote] @ name @ [dquote] @ [newline] @ ind @ ''}''))
    (ind @ primaryKeyOverride @ '' {'') = 1"
proof -
  let ?l1 = "ind @ decl"
  let ?l2 = "ind @ primaryKeyOverride @ '' {''"
  let ?l3 = "ind @ ''  return '' @ [dquote] @ name @ [dquote]"
  let ?l4 = "ind @ ''}''"
  have n1: "newline \<notin> set ?l1" using assms ind by simp
  have n2: "newline \<notin> set ?l2" using ind by (simp add: primaryKeyOverride_def)
  have n3: "newline \<notin> set ?l3" using assms ind by simp
  have n4: "newline \<notin> set ?l4" using ind by simp
  have "split newline (?l1 @ newline # ?l2 @ newline # ?l3 @ newline # ?l4) = [?l1, ?l2, ?l3, ?l4]"
    by (simp only: split_append [OF n1] split_append [OF n2] split_append [OF n3]
        split_no_sep [OF n4])
  then have lines: "split newline (?l1 @ [newline] @ ?l2 @ [newline] @ ?l3 @ [newline] @ ?l4) =
      [?l1, ?l2, ?l3, ?l4]"
    by simp
  have d: "decl \<noteq> primaryKeyOverride @ '' {''"
    using assms(3) by (auto simp: primaryKeyOverride_def)
  have c: "count_list [?l1, ?l2, ?l3, ?l4] ?l2 = 1"
    using d by (simp add: primaryKeyOverride_def)
  have e: "[] \<noteq> ?l2" by (simp add: primaryKeyOverride_def)
  from br show ?thesis
  proof
    assume "br = []"
    then show ?thesis using lines c by simp
  next
    assume "br = [newline]"
    then have "split newline (br @ ?l1 @ [newline] @ ?l2 @ [newline] @ ?l3 @ [newline] @ ?l4) =
        [] # [?l1, ?l2, ?l3, ?l4]"
      using lines by simp
    then show ?thesis using c e by simp
  qed
qed

lemma lineBreak_cases: "lineBreak g = [] \<or> lineBreak g = [newline]"
  by (simp add: lineBreak_def)

lemma emitted_append: "output g' = output g @ s \<Longrightarrow> emitted g g' = s"
  by (simp add: emitted_def)

text \<open>
  Claim C1, as stated, includes an ID in list layers. For an object type with the one
  field \<^verbatim>\<open>ids: [ID]\<close> the class has the list declaration only, and no override.
\<close>

theorem list_of_ID_counterexample:
  "classify (GraphQLList (GraphQLScalarType ''ID'')) True False =
     (GraphQLScalarType ''ID'', True, True) \<and>
   generateSource sampleExternals \<lparr>schema = listOfIDSchema, options = noOptions\<rparr> =
     fileHeaderText @ [newline, newline] @ ''public final class User: Object {'' @ [newline] @
     ''  let ids = List<String>()'' @ [newline] @ ''}'' \<and>
   \<not> contains (generateSource sampleExternals \<lparr>schema = listOfIDSchema, options = noOptions\<rparr>)
     ''primaryKey''"
  by code_simp

text \<open>
  Claim C1, amended. For every property that is classified as the ID scalar and not a
  list, that is the ID under non-null layers only, \<^verbatim>\<open>propertyDeclaration\<close> prints the
  string declaration, optional or not, and after it the override
  \<^verbatim>\<open>override public static func primaryKey() -> String?\<close> with its block; among the lines
  printed after the comment of the description, the first line of the override occurs
  exactly once. The name of the property has no line break in it.
\<close>

theorem identity_field_primaryKey:
  assumes "classify (propertyType p) isOptional False = (GraphQLScalarType ''ID'', isOptional', False)"
    and "newline \<notin> set (propertyName p)"
  shows "output (propertyDeclaration p isOptional False g) =
      output (comment (leafDescription p) g) @ lineBreak (comment (leafDescription p) g) @
      indentation g @
      (if isOptional' then ''dynamic var '' @ propertyName p @ '': String? = nil''
       else ''dynamic var '' @ propertyName p @ '' = '' @ [dquote, dquote]) @
      [newline] @ indentation g @ primaryKeyOverride @ '' {'' @
      [newline] @ indentation g @ ''  return '' @ [dquote] @ propertyName p @ [dquote] @
      [newline] @ indentation g @ ''}'' \<and>
    count_list
      (split newline (emitted (comment (leafDescription p) g)
        (propertyDeclaration p isOptional False g)))
      (indentation g @ primaryKeyOverride @ '' {'') = 1"
proof -
  let ?q = "\<lparr>propertyName = propertyName p, typeName = typeName p,
    propertyType = GraphQLScalarType ''ID'', description = leafDescription p\<rparr>"
  let ?g1 = "comment (leafDescription p) g"
  let ?decl = "if isOptional' then ''dynamic var '' @ propertyName p @ '': String? = nil''
       else ''dynamic var '' @ propertyName p @ '' = '' @ [dquote, dquote]"
  let ?rest = "lineBreak ?g1 @ indentation g @ ?decl @
      [newline] @ indentation g @ primaryKeyOverride @ '' {'' @
      [newline] @ indentation g @ ''  return '' @ [dquote] @ propertyName p @ [dquote] @
      [newline] @ indentation g @ ''}''"
  have "propertyDeclaration p isOptional False g = propertyDeclaration ?q isOptional' False g"
    by (rule propertyDeclaration_classify [OF assms(1)])
  then have out: "output (propertyDeclaration p isOptional False g) = output ?g1 @ ?rest"
    using output_propertyDeclaration_ID [of ?q isOptional' g] by simp
  have em: "emitted ?g1 (propertyDeclaration p isOptional False g) = ?rest"
    by (rule emitted_append) (rule out)
  have d1: "newline \<notin> set ?decl" using assms(2) by simp
  have d2: "hd ?decl = CHR ''d''" by simp
  have "count_list (split newline ?rest) (indentation g @ primaryKeyOverride @ '' {'') = 1"
    by (rule primaryKey_lines [OF assms(2) d1 d2 lineBreak_cases newline_notin_indentation])
  then show ?thesis
    using out em by simp
qed

theorem identity_field_primaryKey_witness:
  "classify (GraphQLNonNull (GraphQLScalarType ''ID'')) True False =
     (GraphQLScalarType ''ID'', False, False) \<and>
   newline \<notin> set ''id'' \<and>
   output (propertyDeclaration
     \<lparr>propertyName = ''id'', typeName = ''String'',
      propertyType = GraphQLNonNull (GraphQLScalarType ''ID''), description = None\<rparr>
     True False newGenerator) =
   ''dynamic var id = '' @ [dquote, dquote, newline] @
   ''override public static func primaryKey() -> String? {'' @ [newline] @
   ''  return '' @ [dquote] @ ''id'' @ [dquote, newline] @ ''}''"
  using identity_field_primaryKey [of
    "\<lparr>propertyName = ''id'', typeName = ''String'',
      propertyType = GraphQLNonNull (GraphQLScalarType ''ID''), description = None\<rparr>"
    True False newGenerator]
  by (simp add: leafDescription_def lineBreak_def indentation_def newGenerator_def
      primaryKeyOverride_def)

subsection \<open>Everything printed stays: the generator only appends\<close>

lemma appends_propertyDeclaration: "appends g (propertyDeclaration p isOptional isList g)"
proof -
  obtain t' o' l' where c: "classify (propertyType p) isOptional isList = (t', o', l')"
    by (cases "classify (propertyType p) isOptional isList") auto
  let ?q = "\<lparr>propertyName = propertyName p, typeName = typeName p,
     propertyType = t', description = leafDescription p\<rparr>"
  have leaf: "\<not> isWrapper t'"
    using classify_not_wrapper [of "propertyType p" isOptional isList] c by simp
  note pc = appends_trans [OF appends_comment appends_printOnNewline]
  have blk: "\<And>s h. appends h (withinBlock (printOnNewline s) h)"
    by (rule appends_withinBlock) (rule appends_printOnNewline)
  have idblock: "\<And>a b c. appends g (withinBlock (printOnNewline a)
      (printOnNewline b (printOnNewline c (comment (leafDescription p) g))))"
    by (intro appends_trans [OF pc appends_trans [OF appends_printOnNewline blk]])
  have "appends g (propertyDeclaration ?q o' l' g)"
  proof (cases l')
    case True
    then show ?thesis
      using leaf by (simp add: propertyDeclaration_isList_leaf pc)
  next
    case False
    show ?thesis
    proof (cases t')
      case (GraphQLObjectType n)
      then show ?thesis using False by (simp add: propertyDeclaration_Object pc)
    next
      case (GraphQLEnumType n)
      then show ?thesis using False by (simp add: propertyDeclaration_Enum pc)
    next
      case (GraphQLInterfaceType n)
      then show ?thesis
        using False propertyDeclaration_other [of ?q n o' g] by (simp add: appends_comment)
    next
      case (GraphQLUnionType n)
      then show ?thesis
        using False propertyDeclaration_other [of ?q n o' g] by (simp add: appends_comment)
    next
      case (GraphQLInputObjectType n)
      then show ?thesis
        using False propertyDeclaration_other [of ?q n o' g] by (simp add: appends_comment)
    next
      case (GraphQLList t)
      then show ?thesis using leaf by simp
    next
      case (GraphQLNonNull t)
      then show ?thesis using leaf by simp
    next
      case (GraphQLScalarType n)
      consider "n = ''Boolean''" | "n = ''Int''" | "n = ''Float''" | "n = ''String''"
        | "n = ''ID''" | "n \<notin> set builtInScalarNames"
        by (auto simp: builtInScalarNames_def)
      then show ?thesis
      proof cases
        case 1
        then show ?thesis
          using False GraphQLScalarType by (simp add: propertyDeclaration_Boolean pc)
      next
        case 2
        then show ?thesis
          using False GraphQLScalarType by (simp add: propertyDeclaration_Int pc)
      next
        case 3
        then show ?thesis
          using False GraphQLScalarType by (simp add: propertyDeclaration_Float pc)
      next
        case 4
        then show ?thesis
          using False GraphQLScalarType by (simp add: propertyDeclaration_String pc)
      next
        case 5
        then show ?thesis
          using False GraphQLScalarType by (simp add: propertyDeclaration_ID idblock)
      next
        case 6
        then show ?thesis
          using False GraphQLScalarType by (simp add: propertyDeclaration_uncaught pc)
      qed
    qed
  qed
  then show ?thesis
    using propertyDeclaration_classify [OF c, of g] by simp
qed

lemma appends_generateFieldDeclaration: "appends g (generateFieldDeclaration ext f pre g)"
  unfolding generateFieldDeclaration_property
  by (rule appends_trans [OF appends_comment appends_propertyDeclaration])

lemma appends_fields:
  "appends g (fold (\<lambda>field. generateFieldDeclaration ext field pre) fs g)"
  by (rule appends_fold) (rule appends_generateFieldDeclaration)

subsection \<open>The class declaration\<close>

lemma withinBlock_unfold:
  "withinBlock closure g =
   (let h = print '' {'' g;
        b = closure (h\<lparr>indentLevel := indentLevel h + 1, startOfIndentLevel := True\<rparr>)
    in printOnNewline ''}'' (b\<lparr>indentLevel := indentLevel b - 1\<rparr>))"
  by (simp add: withinBlock_def withIndent_def Let_def)

lemma classDeclaration_opening:
  "(let h = print '' {'' (pushScope n (print '': Object''
      (printOnNewline (''public final class '' @ n) (printNewlineIfNeeded g))))
    in h\<lparr>indentLevel := indentLevel h + 1, startOfIndentLevel := True\<rparr>) = classOpening n g"
  by (simp add: Let_def classOpening_def classBreak_def print_def pushScope_def
      printOnNewline_def printNewline_def printNewlineIfNeeded_def printIndent_def
      indentation_def)

lemma classDeclaration_closing:
  assumes "appends (classOpening n g) body"
  shows "popScope (printOnNewline ''}'' (body\<lparr>indentLevel := indentLevel body - 1\<rparr>)) =
    classClosing g body"
proof -
  have "prefix (output (classOpening n g)) (output body)"
    using assms by (simp add: appends_def)
  moreover have "output (classOpening n g) \<noteq> []"
    by (simp add: classOpening_def)
  ultimately have ne: "output body \<noteq> []"
    by auto
  have lv: "indentLevel body = indentLevel g + 1" and sc: "scopeStack body = scopeStack g @ [n]"
    using assms by (simp_all add: appends_def classOpening_def)
  show ?thesis
    using ne lv sc
    by (simp add: classClosing_def popScope_def printOnNewline_def printNewline_def print_def
        printIndent_def indentation_def)
qed

lemma generateOutputObjectForType_class:
  "generateOutputObjectForType ext sch n g =
   classClosing g
     (fold (\<lambda>field. generateFieldDeclaration ext field []) (getFields sch n)
       (classOpening n g))"
proof -
  let ?cl = "fold (\<lambda>field. generateFieldDeclaration ext field []) (getFields sch n)"
  let ?g4 = "pushScope n (print '': Object''
      (printOnNewline (''public final class '' @ n) (printNewlineIfNeeded g)))"
  let ?body = "?cl (classOpening n g)"
  have "generateOutputObjectForType ext sch n g = popScope (withinBlock ?cl ?g4)"
    by (simp add: generateOutputObjectForType_def classDeclaration_def wrap_def join_def)
  moreover have "withinBlock ?cl ?g4 =
      printOnNewline ''}'' (?body\<lparr>indentLevel := indentLevel ?body - 1\<rparr>)"
    using classDeclaration_opening [where n = n and g = g]
    by (simp add: withinBlock_unfold Let_def)
  ultimately show ?thesis
    using classDeclaration_closing [OF appends_fields [of "classOpening n g" ext "[]" "getFields sch n"]]
    by simp
qed

lemma realmTypeDeclarationType_skip:
  "\<not> emitsClass type \<Longrightarrow> realmTypeDeclarationType ext sch type g = g"
  by (cases type) (simp_all add: realmTypeDeclarationType_def emitsClass_def)

lemma realmTypeDeclarationType_class:
  "\<not> startsWith n ''__'' \<Longrightarrow>
   realmTypeDeclarationType ext sch (GraphQLObjectType n) g =
   classClosing g
     (fold (\<lambda>field. generateFieldDeclaration ext field []) (getFields sch n)
       (classOpening n g))"
  by (simp add: realmTypeDeclarationType_def generateOutputObjectForType_class)

lemma fold_realmTypeDeclarationType_filter:
  "fold (realmTypeDeclarationType ext sch) types g =
   fold (realmTypeDeclarationType ext sch) (filter emitsClass types) g"
  by (induction types arbitrary: g) (simp_all add: realmTypeDeclarationType_skip)

subsection \<open>Text that occurs in the output\<close>

lemma startsWith_prefix: "startsWith s pre \<longleftrightarrow> prefix pre s"
proof
  assume "startsWith s pre"
  then have "s = pre @ drop (length pre) s"
    by (metis startsWith_def append_take_drop_id)
  then show "prefix pre s"
    by (metis prefixI)
next
  assume "prefix pre s"
  then show "startsWith s pre"
    by (auto simp: startsWith_def prefix_def)
qed

lemma contains_sublist: "contains s pat \<longleftrightarrow> sublist pat s"
  by (induction s) (simp_all add: sublist_Cons_right startsWith_prefix)

lemma sublist_prefix: "sublist m a \<Longrightarrow> prefix a b \<Longrightarrow> sublist m b"
  using sublist_order.order_trans [of m a b] by simp

lemma sublist_appends: "appends g g' \<Longrightarrow> sublist m (output g) \<Longrightarrow> sublist m (output g')"
  using sublist_prefix [of m "output g" "output g'"] by (simp add: appends_def)

lemma fold_keeps:
  assumes "\<And>x h. P h \<Longrightarrow> P (f x h)" and "P h"
  shows "P (fold f xs h)"
  using assms(2) by (induction xs arbitrary: h) (simp_all add: assms(1))

lemma fold_reaches:
  assumes keep: "\<And>x h. P h \<Longrightarrow> P (f x h)" and hit: "\<And>h. P (f a h)" and mem: "a \<in> set xs"
  shows "P (fold f xs h)"
  using mem
proof (induction xs arbitrary: h)
  case Nil
  then show ?case by simp
next
  case (Cons x xs)
  show ?case
  proof (cases "a = x")
    case True
    have "P (f x h)"
      using hit [of h] True by simp
    then have "P (fold f xs (f x h))"
      using fold_keeps [where P = P and f = f and h = "f x h" and xs = xs, OF keep] by simp
    then show ?thesis by simp
  next
    case False
    then show ?thesis
      using Cons by simp
  qed
qed

lemma appends_classOpening_closing:
  assumes "appends (classOpening n g) body"
  shows "appends g (classClosing g body)"
proof -
  have "prefix (output g) (output (classOpening n g))"
    by (simp add: classOpening_def)
  then have "prefix (output g) (output body)"
    using assms by (auto simp: appends_def)
  then show ?thesis
    by (simp add: appends_def classClosing_def)
qed

lemma appends_realmTypeDeclarationType: "appends g (realmTypeDeclarationType ext sch type g)"
proof (cases "emitsClass type")
  case False
  then show ?thesis by (simp add: realmTypeDeclarationType_skip)
next
  case True
  then obtain n where n: "type = GraphQLObjectType n" "\<not> startsWith n ''__''"
    by (cases type) (simp_all add: emitsClass_def)
  show ?thesis
    unfolding n(1) realmTypeDeclarationType_class [OF n(2)]
    by (rule appends_classOpening_closing) (rule appends_fields)
qed

lemma sublist_withinBlock:
  assumes "\<And>h. sublist m (output (closure h))"
  shows "sublist m (output (withinBlock closure g))"
proof -
  let ?h = "print '' {'' g"
  let ?b = "closure (?h\<lparr>indentLevel := indentLevel ?h + 1, startOfIndentLevel := True\<rparr>)"
  have "sublist m (output (?b\<lparr>indentLevel := indentLevel ?b - 1\<rparr>))"
    using assms by simp
  then have "sublist m (output (printOnNewline ''}'' (?b\<lparr>indentLevel := indentLevel ?b - 1\<rparr>)))"
    by (rule sublist_appends [OF appends_printOnNewline])
  then show ?thesis
    by (simp add: withinBlock_unfold Let_def)
qed

lemma sublist_namespaceDeclaration:
  assumes "\<And>h. sublist m (output (closure h))"
  shows "sublist m (output (namespaceDeclaration ns closure g))"
  using assms sublist_withinBlock [of m closure, OF assms]
  by (simp add: namespaceDeclaration_def popScope_def)

lemma generateFieldDeclaration_uncaught:
  assumes "classify (fieldType f) True False = (GraphQLScalarType n, isOptional', False)"
    and "n \<notin> set builtInScalarNames"
  shows "generateFieldDeclaration ext f pre g =
    printOnNewline (''UNCAUGHT SCALAR '' @ n) (comment (fieldDescription f) g)"
proof -
  let ?p = "\<lparr>propertyName = camelCase ext (fieldName f),
      typeName = rootTypeNameFromGraphQLType ext (fieldType f),
      propertyType = fieldType f, description = None\<rparr>"
  have c: "classify (propertyType ?p) True False = (GraphQLScalarType n, isOptional', False)"
    using assms(1) by simp
  have d: "leafDescription ?p = None"
    by (simp add: leafDescription_def)
  show ?thesis
    unfolding generateFieldDeclaration_property propertyDeclaration_classify [OF c] d
    using assms(2) by (simp add: propertyDeclaration_uncaught)
qed

lemma generateSource_contains_marker:
  assumes c: "classify (fieldType f) True False = (GraphQLScalarType n, isOptional', False)"
    and n: "n \<notin> set builtInScalarNames"
    and t: "GraphQLObjectType c \<in> set (getTypeMap (schema ctx))"
    and u: "\<not> startsWith c ''__''"
    and f: "f \<in> set (getFields (schema ctx) c)"
  shows "contains (generateSource ext ctx) (''UNCAUGHT SCALAR '' @ n)"
proof -
  let ?m = "''UNCAUGHT SCALAR '' @ n"
  let ?P = "\<lambda>h. sublist ?m (output h)"
  let ?gen = "\<lambda>field. generateFieldDeclaration ext field []"
  have field: "?P (?gen f h)" for h
  proof -
    let ?h = "comment (fieldDescription f) h"
    have "output (printOnNewline ?m ?h) = (output ?h @ lineBreak ?h @ indentation ?h) @ ?m"
      by (simp add: output_printOnNewline)
    then have "sublist ?m (output (printOnNewline ?m ?h))"
      by (simp only: sublist_append_leftI)
    then show ?thesis
      by (simp only: generateFieldDeclaration_uncaught [OF c n])
  qed
  have keep_field: "?P h \<Longrightarrow> ?P (?gen x h)" for x h
    by (rule sublist_appends [OF appends_generateFieldDeclaration])
  have body: "?P (fold ?gen (getFields (schema ctx) c) h)" for h
    by (rule fold_reaches [of ?P ?gen f, OF keep_field field f])
  have "?P (classClosing h (fold ?gen (getFields (schema ctx) c) (classOpening c h)))" for h
    using body [of "classOpening c h"] sublist_prefix by (fastforce simp: classClosing_def)
  then have cls: "?P (realmTypeDeclarationType ext (schema ctx) (GraphQLObjectType c) h)" for h
    by (simp add: realmTypeDeclarationType_class [OF u])
  have keep_type: "?P h \<Longrightarrow> ?P (realmTypeDeclarationType ext (schema ctx) x h)" for x h
    by (rule sublist_appends [OF appends_realmTypeDeclarationType])
  have "?P (fold (realmTypeDeclarationType ext (schema ctx)) (getTypeMap (schema ctx)) h)" for h
    by (rule fold_reaches [of ?P "realmTypeDeclarationType ext (schema ctx)"
          "GraphQLObjectType c", OF keep_type cls t])
  then have "sublist ?m (generateSource ext ctx)"
    unfolding generateSource_def by (rule sublist_namespaceDeclaration)
  then show ?thesis
    by (simp add: contains_sublist)
qed

subsection \<open>One class for every object type\<close>

lemma printOnNewline_Nil: "printOnNewline [] g = g"
  by (simp add: printOnNewline_def)

lemma propertyDeclaration_leaf_line:
  assumes "\<not> isWrapper (propertyType q)"
  shows "propertyDeclaration q isOptional isList g =
    (if propertyType q = GraphQLScalarType ''ID'' \<and> \<not> isList then
       withinBlock (printOnNewline (''return '' @ [dquote] @ propertyName q @ [dquote]))
         (printOnNewline primaryKeyOverride
           (printOnNewline
             (propertyLine (propertyName q) (typeName q) (propertyType q) isOptional isList)
             (comment (description q) g)))
     else
       printOnNewline
         (propertyLine (propertyName q) (typeName q) (propertyType q) isOptional isList)
         (comment (description q) g))"
proof (cases isList)
  case True
  then show ?thesis
    using assms by (simp add: propertyDeclaration_isList_leaf propertyLine_def)
next
  case False
  show ?thesis
  proof (cases "propertyType q")
    case (GraphQLObjectType n)
    then show ?thesis using False by (simp add: propertyDeclaration_Object propertyLine_def)
  next
    case (GraphQLEnumType n)
    then show ?thesis using False by (simp add: propertyDeclaration_Enum propertyLine_def)
  next
    case (GraphQLInterfaceType n)
    then show ?thesis
      using False propertyDeclaration_other [of q n isOptional g]
      by (simp add: propertyLine_def printOnNewline_Nil)
  next
    case (GraphQLUnionType n)
    then show ?thesis
      using False propertyDeclaration_other [of q n isOptional g]
      by (simp add: propertyLine_def printOnNewline_Nil)
  next
    case (GraphQLInputObjectType n)
    then show ?thesis
      using False propertyDeclaration_other [of q n isOptional g]
      by (simp add: propertyLine_def printOnNewline_Nil)
  next
    case (GraphQLList t)
    then show ?thesis using assms by simp
  next
    case (GraphQLNonNull t)
    then show ?thesis using assms by simp
  next
    case (GraphQLScalarType n)
    consider "n = ''Boolean''" | "n = ''Int''" | "n = ''Float''" | "n = ''String''"
      | "n = ''ID''" | "n \<notin> set builtInScalarNames"
      by (auto simp: builtInScalarNames_def)
    then show ?thesis
    proof cases
      case 1
      then show ?thesis
        using False GraphQLScalarType by (simp add: propertyDeclaration_Boolean propertyLine_def)
    next
      case 2
      then show ?thesis
        using False GraphQLScalarType by (simp add: propertyDeclaration_Int propertyLine_def)
    next
      case 3
      then show ?thesis
        using False GraphQLScalarType by (simp add: propertyDeclaration_Float propertyLine_def)
    next
      case 4
      then show ?thesis
        using False GraphQLScalarType by (simp add: propertyDeclaration_String propertyLine_def)
    next
      case 5
      then show ?thesis
        using False GraphQLScalarType
        by (simp add: propertyDeclaration_ID propertyLine_def primaryKeyOverride_def)
    next
      case 6
      then show ?thesis
        using False GraphQLScalarType
        by (simp add: propertyDeclaration_uncaught propertyLine_def builtInScalarNames_def)
    qed
  qed
qed

lemma generateFieldDeclaration_line:
  "generateFieldDeclaration ext f pre g =
   (case classify (fieldType f) True False of
      (type, isOptional, isList) \<Rightarrow>
        if type = GraphQLScalarType ''ID'' \<and> \<not> isList then
          withinBlock
            (printOnNewline (''return '' @ [dquote] @ camelCase ext (fieldName f) @ [dquote]))
            (printOnNewline primaryKeyOverride
              (printOnNewline
                (propertyLine (camelCase ext (fieldName f))
                  (rootTypeNameFromGraphQLType ext (fieldType f)) type isOptional isList)
                (comment (fieldDescription f) g)))
        else
          printOnNewline
            (propertyLine (camelCase ext (fieldName f))
              (rootTypeNameFromGraphQLType ext (fieldType f)) type isOptional isList)
            (comment (fieldDescription f) g))"
proof -
  let ?p = "\<lparr>propertyName = camelCase ext (fieldName f),
      typeName = rootTypeNameFromGraphQLType ext (fieldType f),
      propertyType = fieldType f, description = None\<rparr>"
  obtain t' o' l' where c: "classify (fieldType f) True False = (t', o', l')"
    by (cases "classify (fieldType f) True False") auto
  let ?q = "\<lparr>propertyName = propertyName ?p, typeName = typeName ?p,
      propertyType = t', description = leafDescription ?p\<rparr>"
  have c': "classify (propertyType ?p) True False = (t', o', l')"
    using c by simp
  have leaf: "\<not> isWrapper (propertyType ?q)"
    using classify_not_wrapper [of "fieldType f" True False] c by simp
  have d: "leafDescription ?p = None"
    by (simp add: leafDescription_def)
  have "generateFieldDeclaration ext f pre g =
      propertyDeclaration ?q o' l' (comment (fieldDescription f) g)"
    unfolding generateFieldDeclaration_property
    by (rule propertyDeclaration_classify [OF c'])
  then show ?thesis
    unfolding propertyDeclaration_leaf_line [OF leaf] c
    by (simp add: d)
qed

lemma propertyLine_empty:
  "(propertyLine name tn type isOptional isList = []) = (\<not> isList \<and> \<not> namedOutputKind type)"
  by (cases type) (simp_all add: propertyLine_def)

text \<open>
  Claim C4, as stated, has one property declaration for every field. For an object type
  with a field of an interface type and a field of a union type, the class is printed
  with an empty body: neither field has a declaration.
\<close>

theorem field_without_declaration_counterexample:
  "length (getFields droidSchema ''Droid'') = 2 \<and>
   generateSource sampleExternals \<lparr>schema = droidSchema, options = noOptions\<rparr> =
     fileHeaderText @ [newline, newline] @ ''public final class Droid: Object {'' @ [newline] @
     ''}'' \<and>
   \<not> contains (generateSource sampleExternals \<lparr>schema = droidSchema, options = noOptions\<rparr>)
     ''friend'' \<and>
   \<not> contains (generateSource sampleExternals \<lparr>schema = droidSchema, options = noOptions\<rparr>)
     ''pet''"
  by code_simp

text \<open>
  Claim C4, amended. For an object type whose name does not start with \<^verbatim>\<open>__\<close>,
  \<^verbatim>\<open>realmTypeDeclarationType\<close> prints one class: the line
  \<^verbatim>\<open>public final class <name>: Object {\<close>, then what \<^verbatim>\<open>generateFieldDeclaration\<close> prints for
  each field, in the order of \<^verbatim>\<open>getFields\<close>, then the closing brace. For an object type
  whose name starts with \<^verbatim>\<open>__\<close> and for every type that is not an object type (scalar,
  enum, input, interface, union) it prints nothing and leaves the generator as it is. So
  the walk over the type map prints what the walk over its object types outside the
  introspection names prints. For a field, \<^verbatim>\<open>generateFieldDeclaration\<close> prints the comment of
  the description and then the one line \<open>propertyLine\<close> gives for the classified type,
  followed by the override for an ID that is not a list. That line is a declaration, or
  the marker of an unrecognised scalar, when the field has a list layer or its innermost
  type is an object, scalar or enum type; it is empty, and no declaration is printed,
  exactly when the field has no list layer and its innermost type is an interface, union
  or input object type.
\<close>

theorem class_declaration_per_object_type:
  "(\<not> startsWith n ''__'' \<longrightarrow>
      realmTypeDeclarationType ext sch (GraphQLObjectType n) g =
        classClosing g
          (fold (\<lambda>field. generateFieldDeclaration ext field []) (getFields sch n)
            (classOpening n g))) \<and>
   (startsWith n ''__'' \<longrightarrow> realmTypeDeclarationType ext sch (GraphQLObjectType n) g = g) \<and>
   ((\<forall>m. type \<noteq> GraphQLObjectType m) \<longrightarrow> realmTypeDeclarationType ext sch type g = g) \<and>
   emitsClass type = (\<exists>m. type = GraphQLObjectType m \<and> \<not> startsWith m ''__'') \<and>
   fold (realmTypeDeclarationType ext sch) types g =
     fold (realmTypeDeclarationType ext sch) (filter emitsClass types) g \<and>
   generateFieldDeclaration ext f pre g =
     (case classify (fieldType f) True False of
        (type, isOptional, isList) \<Rightarrow>
          if type = GraphQLScalarType ''ID'' \<and> \<not> isList then
            withinBlock
              (printOnNewline (''return '' @ [dquote] @ camelCase ext (fieldName f) @ [dquote]))
              (printOnNewline primaryKeyOverride
                (printOnNewline
                  (propertyLine (camelCase ext (fieldName f))
                    (rootTypeNameFromGraphQLType ext (fieldType f)) type isOptional isList)
                  (comment (fieldDescription f) g)))
          else
            printOnNewline
              (propertyLine (camelCase ext (fieldName f))
                (rootTypeNameFromGraphQLType ext (fieldType f)) type isOptional isList)
              (comment (fieldDescription f) g)) \<and>
   (propertyLine name tn leaf isOptional isList = []) =
     (\<not> isList \<and> \<not> namedOutputKind leaf) \<and>
   printOnNewline [] g = g"
proof (intro conjI impI)
  show "emitsClass type = (\<exists>m. type = GraphQLObjectType m \<and> \<not> startsWith m ''__'')"
    by (cases type) (simp_all add: emitsClass_def)
next
  assume "\<forall>m. type \<noteq> GraphQLObjectType m"
  then show "realmTypeDeclarationType ext sch type g = g"
    by (cases type) (simp_all add: realmTypeDeclarationType_def)
next
  assume "startsWith n ''__''"
  then show "realmTypeDeclarationType ext sch (GraphQLObjectType n) g = g"
    by (simp add: realmTypeDeclarationType_def)
next
  show "generateFieldDeclaration ext f pre g =
     (case classify (fieldType f) True False of
        (type, isOptional, isList) \<Rightarrow>
          if type = GraphQLScalarType ''ID'' \<and> \<not> isList then
            withinBlock
              (printOnNewline (''return '' @ [dquote] @ camelCase ext (fieldName f) @ [dquote]))
              (printOnNewline primaryKeyOverride
                (printOnNewline
                  (propertyLine (camelCase ext (fieldName f))
                    (rootTypeNameFromGraphQLType ext (fieldType f)) type isOptional isList)
                  (comment (fieldDescription f) g)))
          else
            printOnNewline
              (propertyLine (camelCase ext (fieldName f))
                (rootTypeNameFromGraphQLType ext (fieldType f)) type isOptional isList)
              (comment (fieldDescription f) g))"
    by (rule generateFieldDeclaration_line)
next
  show "(propertyLine name tn leaf isOptional isList = []) =
     (\<not> isList \<and> \<not> namedOutputKind leaf)"
    by (rule propertyLine_empty)
next
  show "printOnNewline [] g = g"
    by (rule printOnNewline_Nil)
qed (simp_all add: realmTypeDeclarationType_class
    fold_realmTypeDeclarationType_filter [symmetric])

theorem class_declaration_per_object_type_witness:
  "\<not> startsWith ''User'' ''__'' \<and> startsWith ''__Type'' ''__'' \<and>
   (\<forall>m. GraphQLEnumType ''Role'' \<noteq> GraphQLObjectType m) \<and>
   output (realmTypeDeclarationType sampleExternals userSchema (GraphQLObjectType ''User'')
     newGenerator) =
     ''public final class User: Object {'' @ [newline] @
     ''  dynamic var id = '' @ [dquote, dquote, newline] @
     ''  override public static func primaryKey() -> String? {'' @ [newline] @
     ''    return '' @ [dquote] @ ''id'' @ [dquote, newline] @
     ''  }'' @ [newline] @
     ''  dynamic var name: String? = nil'' @ [newline] @ ''}'' \<and>
   realmTypeDeclarationType sampleExternals userSchema (GraphQLObjectType ''__Type'')
     newGenerator = newGenerator \<and>
   realmTypeDeclarationType sampleExternals userSchema (GraphQLEnumType ''Role'')
     newGenerator = newGenerator \<and>
   filter emitsClass (getTypeMap userSchema) = [GraphQLObjectType ''User'']"
proof -
  have e: "output (classClosing newGenerator
      (fold (\<lambda>field. generateFieldDeclaration sampleExternals field [])
        (getFields userSchema ''User'') (classOpening ''User'' newGenerator))) =
     ''public final class User: Object {'' @ [newline] @
     ''  dynamic var id = '' @ [dquote, dquote, newline] @
     ''  override public static func primaryKey() -> String? {'' @ [newline] @
     ''    return '' @ [dquote] @ ''id'' @ [dquote, newline] @
     ''  }'' @ [newline] @
     ''  dynamic var name: String? = nil'' @ [newline] @ ''}''"
    by code_simp
  have f: "filter emitsClass (getTypeMap userSchema) = [GraphQLObjectType ''User'']"
    by code_simp
  have s: "\<not> startsWith ''User'' ''__''" "startsWith ''__Type'' ''__''"
    by (simp_all add: startsWith_def)
  have u: "\<not> startsWith ''User'' ''__'' \<longrightarrow>
      realmTypeDeclarationType sampleExternals userSchema (GraphQLObjectType ''User'')
        newGenerator =
      classClosing newGenerator
        (fold (\<lambda>field. generateFieldDeclaration sampleExternals field [])
          (getFields userSchema ''User'') (classOpening ''User'' newGenerator))"
    using class_declaration_per_object_type [where n = "''User''" and ext = sampleExternals
        and sch = userSchema and g = newGenerator]
    by (rule conjunct1)
  have t: "(startsWith ''__Type'' ''__'' \<longrightarrow>
      realmTypeDeclarationType sampleExternals userSchema (GraphQLObjectType ''__Type'')
        newGenerator = newGenerator) \<and>
     ((\<forall>m. GraphQLEnumType ''Role'' \<noteq> GraphQLObjectType m) \<longrightarrow>
      realmTypeDeclarationType sampleExternals userSchema (GraphQLEnumType ''Role'')
        newGenerator = newGenerator)"
    using class_declaration_per_object_type [where n = "''__Type''" and ext = sampleExternals
        and sch = userSchema and g = newGenerator and type = "GraphQLEnumType ''Role''"]
    by blast
  show ?thesis
    using u t e f s by simp
qed

subsection \<open>Unrecognised scalars\<close>

text \<open>
  Claim C6, as stated, has the marker for every field of an unrecognised scalar. For a
  field that is a list of a custom scalar the list declaration is printed, and no marker.
\<close>

theorem list_of_custom_scalar_counterexample:
  "''DateTime'' \<notin> set builtInScalarNames \<and>
   generateSource sampleExternals \<lparr>schema = eventListSchema, options = noOptions\<rparr> =
     fileHeaderText @ [newline, newline] @ ''public final class Event: Object {'' @ [newline] @
     ''  let starts = List<String>()'' @ [newline] @ ''}'' \<and>
   \<not> contains (generateSource sampleExternals \<lparr>schema = eventListSchema, options = noOptions\<rparr>)
     ''UNCAUGHT SCALAR''"
  by code_simp

text \<open>
  Claim C6, amended. The generator has no failing branch: every function of the model is
  total, as the source has no \<^verbatim>\<open>throw\<close>. For a field classified as a scalar that is none of
  the five built-in ones, and not a list, that is a field with no list layer, the line
  \<^verbatim>\<open>UNCAUGHT SCALAR <name>\<close> is printed in place of a declaration; the fields before it and
  after it in the same type are generated as usual, the ones after it from the generator
  the marker line leaves; and the marker is in the text \<^verbatim>\<open>generateSource\<close> returns for
  every schema that has such a field in an object type outside the introspection names.
\<close>

theorem uncaught_scalar_marker:
  assumes "classify (fieldType f) True False = (GraphQLScalarType n, isOptional', False)"
    and "n \<notin> set builtInScalarNames"
  shows "generateFieldDeclaration ext f pre g =
      printOnNewline (''UNCAUGHT SCALAR '' @ n) (comment (fieldDescription f) g) \<and>
    fold (\<lambda>field. generateFieldDeclaration ext field pre) (before @ f # after) g =
      fold (\<lambda>field. generateFieldDeclaration ext field pre) after
        (printOnNewline (''UNCAUGHT SCALAR '' @ n)
          (comment (fieldDescription f)
            (fold (\<lambda>field. generateFieldDeclaration ext field pre) before g))) \<and>
    (GraphQLObjectType c \<in> set (getTypeMap (schema ctx)) \<and> \<not> startsWith c ''__'' \<and>
     f \<in> set (getFields (schema ctx) c) \<longrightarrow>
       contains (generateSource ext ctx) (''UNCAUGHT SCALAR '' @ n))"
  using generateFieldDeclaration_uncaught [OF assms]
    generateSource_contains_marker [OF assms, of c ctx ext]
  by simp

theorem uncaught_scalar_marker_witness:
  "classify (GraphQLNonNull (GraphQLScalarType ''DateTime'')) True False =
     (GraphQLScalarType ''DateTime'', False, False) \<and>
   ''DateTime'' \<notin> set builtInScalarNames \<and>
   GraphQLObjectType ''Event'' \<in> set (getTypeMap eventSchema) \<and>
   \<not> startsWith ''Event'' ''__'' \<and>
   contains (generateSource sampleExternals \<lparr>schema = eventSchema, options = noOptions\<rparr>)
     ''UNCAUGHT SCALAR DateTime'' \<and>
   generateSource sampleExternals \<lparr>schema = eventSchema, options = noOptions\<rparr> =
     fileHeaderText @ [newline, newline] @ ''public final class Event: Object {'' @ [newline] @
     ''  UNCAUGHT SCALAR DateTime'' @ [newline] @
     ''  dynamic var title: String? = nil'' @ [newline] @ ''}''"
proof -
  have e: "generateSource sampleExternals \<lparr>schema = eventSchema, options = noOptions\<rparr> =
     fileHeaderText @ [newline, newline] @ ''public final class Event: Object {'' @ [newline] @
     ''  UNCAUGHT SCALAR DateTime'' @ [newline] @
     ''  dynamic var title: String? = nil'' @ [newline] @ ''}''"
    by code_simp
  have h: "classify (fieldType \<lparr>fieldName = ''start'',
        fieldType = GraphQLNonNull (GraphQLScalarType ''DateTime''),
        fieldDescription = None\<rparr>) True False = (GraphQLScalarType ''DateTime'', False, False)"
      "''DateTime'' \<notin> set builtInScalarNames"
    by (simp_all add: builtInScalarNames_def)
  have m: "GraphQLObjectType ''Event'' \<in> set (getTypeMap eventSchema)"
      "\<not> startsWith ''Event'' ''__''"
      "\<lparr>fieldName = ''start'', fieldType = GraphQLNonNull (GraphQLScalarType ''DateTime''),
        fieldDescription = None\<rparr> \<in> set (getFields eventSchema ''Event'')"
    by (simp_all add: eventSchema_def startsWith_def)
  show ?thesis
    using uncaught_scalar_marker [OF h, where c = "''Event''" and ext = sampleExternals
        and ctx = "\<lparr>schema = eventSchema, options = noOptions\<rparr>"] e h m
    by simp
qed

subsection \<open>Reserved words as field names\<close>

text \<open>
  Claim C7 fails on the code. For a field named \<^verbatim>\<open>class\<close> the declaration is printed with the
  bare name, although \<^verbatim>\<open>escapeIdentifierIfNeeded\<close> escapes this name and
  \<^verbatim>\<open>parameterForFieldName\<close> calls it: \<^verbatim>\<open>generateFieldDeclaration\<close> passes the camel-cased
  name on as it is.
\<close>

theorem reserved_field_name_not_escaped:
  "escapeIdentifierIfNeeded ''class'' = [backtick] @ ''class'' @ [backtick] \<and>
   output (generateFieldDeclaration sampleExternals
     \<lparr>fieldName = ''class'', fieldType = GraphQLScalarType ''String'', fieldDescription = None\<rparr>
     [] newGenerator) = ''dynamic var class: String? = nil'' \<and>
   parameterForFieldName (\<lambda>type. ''String'') ''class'' (GraphQLScalarType ''String'') =
     [backtick] @ ''class'' @ [backtick] @ '': String = nil''"
  by code_simp

end
